theory Spec2Isabelle
  imports Complex_Main "HOL-Library.Log_Nat"
begin

section \<open>Double-precision floats\<close>

text \<open>
  The calculator of \<^verbatim>\<open>global.py\<close> computes with Python's \<^verbatim>\<open>float\<close>, the IEEE 754 binary64
  format: every product and every sum is the exact result rounded to the nearest
  representable number, ties to the even mantissa. A float is modelled as its exact
  rational value, or an infinity, or NaN. The two zeros of the format are identified (the
  program multiplies, adds and compares, and none of these tells them apart).
\<close>

datatype pyfloat = Fin rat | PInf | NInf | NaN

text \<open>Rounding a number to the nearest integer, a tie to the even one.\<close>

definition round_half_even :: "rat \<Rightarrow> int" where
  "round_half_even s =
     (let f = \<lfloor>s\<rfloor>; r = s - of_int f
      in if r < 1 / 2 then f else if 1 / 2 < r then f + 1 else if even f then f else f + 1)"

text \<open>
  The binary exponent of a positive number: \<open>2 powi ilog2 q \<le> q < 2 powi (ilog2 q + 1)\<close>,
  found from the bit lengths of numerator and denominator.
\<close>

definition ilog2 :: "rat \<Rightarrow> int" where
  "ilog2 q =
     (let (n, d) = quotient_of q; k = bitlen n - bitlen d
      in if 2 powi k \<le> q then k else k - 1)"

text \<open>
  The exponent of the last mantissa bit: 53 bits of mantissa, and not below the exponent
  \<open>- 1074\<close> of the subnormal numbers.
\<close>

definition ulp_exp :: "rat \<Rightarrow> int" where
  "ulp_exp q = max (ilog2 q - 52) (- 1074)"

text \<open>The nearest multiple of \<open>2 powi u\<close>.\<close>

definition grid :: "int \<Rightarrow> rat \<Rightarrow> rat" where
  "grid u q = of_int (round_half_even (q / 2 powi u)) * 2 powi u"

text \<open>Rounding a positive number; a result of \<open>2 powi 1024\<close> or more overflows to infinity.\<close>

definition round_pos :: "rat \<Rightarrow> pyfloat" where
  "round_pos q = (let v = grid (ulp_exp q) q in if 2 powi 1024 \<le> v then PInf else Fin v)"

fun fneg :: "pyfloat \<Rightarrow> pyfloat" where
  "fneg (Fin r) = Fin (- r)"
| "fneg PInf = NInf"
| "fneg NInf = PInf"
| "fneg NaN = NaN"

definition round64 :: "rat \<Rightarrow> pyfloat" where
  "round64 q = (if q = 0 then Fin 0 else if 0 < q then round_pos q else fneg (round_pos (- q)))"

text \<open>The product and the sum of two floats.\<close>

fun fmul :: "pyfloat \<Rightarrow> pyfloat \<Rightarrow> pyfloat" where
  "fmul NaN _ = NaN"
| "fmul _ NaN = NaN"
| "fmul (Fin a) (Fin b) = round64 (a * b)"
| "fmul (Fin a) PInf = (if a = 0 then NaN else if 0 < a then PInf else NInf)"
| "fmul (Fin a) NInf = (if a = 0 then NaN else if 0 < a then NInf else PInf)"
| "fmul PInf (Fin b) = (if b = 0 then NaN else if 0 < b then PInf else NInf)"
| "fmul NInf (Fin b) = (if b = 0 then NaN else if 0 < b then NInf else PInf)"
| "fmul PInf PInf = PInf"
| "fmul PInf NInf = NInf"
| "fmul NInf PInf = NInf"
| "fmul NInf NInf = PInf"

fun fadd :: "pyfloat \<Rightarrow> pyfloat \<Rightarrow> pyfloat" where
  "fadd NaN _ = NaN"
| "fadd _ NaN = NaN"
| "fadd (Fin a) (Fin b) = round64 (a + b)"
| "fadd (Fin a) PInf = PInf"
| "fadd (Fin a) NInf = NInf"
| "fadd PInf (Fin b) = PInf"
| "fadd NInf (Fin b) = NInf"
| "fadd PInf PInf = PInf"
| "fadd PInf NInf = NaN"
| "fadd NInf PInf = NaN"
| "fadd NInf NInf = NInf"

text \<open>Python's \<^verbatim>\<open><=\<close> and \<^verbatim>\<open><\<close> on floats: false whenever an operand is NaN.\<close>

fun fle :: "pyfloat \<Rightarrow> pyfloat \<Rightarrow> bool" where
  "fle NaN _ = False"
| "fle _ NaN = False"
| "fle NInf _ = True"
| "fle _ PInf = True"
| "fle PInf _ = False"
| "fle _ NInf = False"
| "fle (Fin a) (Fin b) = (a \<le> b)"

definition flt :: "pyfloat \<Rightarrow> pyfloat \<Rightarrow> bool" where
  "flt a b = (fle a b \<and> \<not> fle b a)"

section \<open>Values, dictionaries and errors\<close>

text \<open>
  The input record is a Python dictionary whose values are integers (slider positions),
  floats (the LPG use is a product with a float) or strings (the country and diet labels).
\<close>

datatype pyval = PInt int | PFloat pyfloat | Str string

text \<open>
  The exceptions the code can raise: a failed subscript, a string used as a number, and
  an integer too large to be converted to a float.
\<close>

datatype error = KeyError pyval | TypeError | OverflowError

type_synonym pydict = "string \<rightharpoonup> pyval"

text \<open>The constant tables hold floats.\<close>

type_synonym table = "string \<rightharpoonup> pyfloat"

text \<open>
  \<^verbatim>\<open>breakdown\<close> is a Python dict filled by assignment; it keeps insertion order, which
  \<^verbatim>\<open>breakdown.values()\<close> and the charts follow. It is an association list. Every value
  stored in it is a product with a float, hence a float.
\<close>

type_synonym breakdown = "(string \<times> pyfloat) list"

definition bind :: "error + 'a \<Rightarrow> ('a \<Rightarrow> error + 'b) \<Rightarrow> error + 'b" where
  "bind m f = (case m of Inl e \<Rightarrow> Inl e | Inr x \<Rightarrow> f x)"

text \<open>\<^verbatim>\<open>d[k]\<close>: raises KeyError when the key is absent.\<close>

definition getitem :: "pydict \<Rightarrow> string \<Rightarrow> error + pyval" where
  "getitem d k = (case d k of None \<Rightarrow> Inl (KeyError (Str k)) | Some v \<Rightarrow> Inr v)"

text \<open>\<^verbatim>\<open>d.get(k, default)\<close>: never raises.\<close>

definition get_default :: "pydict \<Rightarrow> string \<Rightarrow> pyval \<Rightarrow> pyval" where
  "get_default d k dflt = (case d k of None \<Rightarrow> dflt | Some v \<Rightarrow> v)"

text \<open>
  A subscript of one of the constant tables, whose keys are all strings: a number as key,
  or a string the table does not hold, raises KeyError.
\<close>

fun lookup :: "(string \<rightharpoonup> 'a) \<Rightarrow> pyval \<Rightarrow> error + 'a" where
  "lookup t (Str k) = (case t k of None \<Rightarrow> Inl (KeyError (Str k)) | Some f \<Rightarrow> Inr f)"
| "lookup t v = Inl (KeyError v)"

text \<open>
  The conversion Python applies to the other operand of a float: an integer is rounded to
  the nearest float, and one that is too large raises OverflowError; a string is no number.
\<close>

fun to_float :: "pyval \<Rightarrow> error + pyfloat" where
  "to_float (PInt i) = (case round64 (of_int i) of Fin r \<Rightarrow> Inr (Fin r) | _ \<Rightarrow> Inl OverflowError)"
| "to_float (PFloat a) = Inr a"
| "to_float (Str s) = Inl TypeError"

text \<open>
  \<^verbatim>\<open>v * 52\<close> and \<^verbatim>\<open>v * 500\<close>, a product with an integer literal: an integer is multiplied
  exactly, a float is multiplied by the literal as a float, a string is repeated (Python's
  sequence repetition); no error arises here.
\<close>

fun times_int :: "pyval \<Rightarrow> int \<Rightarrow> pyval" where
  "times_int (PInt i) n = PInt (i * n)"
| "times_int (PFloat a) n = PFloat (fmul a (round64 (of_int n)))"
| "times_int (Str s) n = Str (concat (replicate (nat n) s))"

text \<open>\<^verbatim>\<open>v * f\<close> for a float \<^verbatim>\<open>f\<close> read from a table.\<close>

definition times_factor :: "pyval \<Rightarrow> pyfloat \<Rightarrow> error + pyfloat" where
  "times_factor v f = bind (to_float v) (\<lambda>a. Inr (fmul a f))"

text \<open>\<^verbatim>\<open>x * 12\<close> and \<^verbatim>\<open>x * 365\<close> for a float \<^verbatim>\<open>x\<close> and an integer literal.\<close>

definition times_const :: "pyfloat \<Rightarrow> int \<Rightarrow> pyfloat" where
  "times_const x n = fmul x (round64 (of_int n))"

text \<open>\<^verbatim>\<open>breakdown[k] = v\<close>: replaces the value of a key already there, appends a new key.\<close>

fun setitem :: "breakdown \<Rightarrow> string \<Rightarrow> pyfloat \<Rightarrow> breakdown" where
  "setitem [] k v = [(k, v)]"
| "setitem ((k', v') # bd) k v = (if k' = k then (k, v) # bd else (k', v') # setitem bd k v)"

definition values_of :: "breakdown \<Rightarrow> pyfloat list" where
  "values_of bd = map snd bd"

text \<open>
  \<^verbatim>\<open>sum(...)\<close>: the values are added from the left to the integer 0, every addition
  rounded (the summation of CPython before version 3.12). The sum of no values is the
  integer 0 itself; the first addition converts it to a float.
\<close>

definition py_sum :: "pyfloat list \<Rightarrow> pyval" where
  "py_sum xs = (if xs = [] then PInt 0 else PFloat (foldl fadd (Fin 0) xs))"

text \<open>\<^verbatim>\<open>breakdown_dict.get(k, 0) > c\<close> for an integer literal \<^verbatim>\<open>c\<close>.\<close>

definition bd_get :: "breakdown \<Rightarrow> string \<Rightarrow> pyfloat" where
  "bd_get bd k = (case map_of bd k of None \<Rightarrow> Fin 0 | Some v \<Rightarrow> v)"

definition exceeds :: "pyfloat \<Rightarrow> int \<Rightarrow> bool" where
  "exceeds v c = flt (Fin (of_int c)) v"

section \<open>Emission factors\<close>

text \<open>A decimal literal of the source denotes the float nearest to it.\<close>

definition COUNTRY_GRID_MIX :: table where
  "COUNTRY_GRID_MIX = map_of
    [(''Select Country'', round64 0),
     (''Nigeria (Gas-dominated)'', round64 (55 / 100)),
     (''South Africa (Coal-dominated)'', round64 (9 / 10)),
     (''Kenya (Geothermal/Hydro)'', round64 (3 / 10)),
     (''Ghana (Hydro/Gas)'', round64 (45 / 100)),
     (''Egypt (Gas-dominated)'', round64 (6 / 10)),
     (''Ethiopia (Hydro-dominated)'', round64 (5 / 100)),
     (''General Sub-Saharan Africa Avg'', round64 (48 / 100))]"

definition GLOBAL_EMISSION_FACTORS :: table where
  "GLOBAL_EMISSION_FACTORS = map_of
    [(''electricity'', round64 (5 / 10)),
     (''natural_gas'', round64 2),
     (''heating_oil'', round64 (268 / 100)),
     (''propane'', round64 (15 / 10)),
     (''car_gasoline'', round64 (31 / 100)),
     (''car_diesel'', round64 (27 / 100)),
     (''motorcycle'', round64 (11 / 100)),
     (''bus'', round64 (11 / 100)),
     (''train'', round64 (6 / 100)),
     (''plane_short'', round64 (24 / 100)),
     (''diet_meat_heavy'', round64 (33 / 10)),
     (''diet_typical'', round64 (18 / 10)),
     (''diet_meat_regular'', round64 (27 / 10)),
     (''diet_average'', round64 (25 / 10)),
     (''diet_vegetarian'', round64 (15 / 10)),
     (''diet_vegan'', round64 (12 / 10)),
     (''lpg_per_kg'', round64 3)]"

text \<open>The local \<^verbatim>\<open>diet_map\<close> of the calculator: one map, whatever the region.\<close>

definition diet_map :: "string \<rightharpoonup> string" where
  "diet_map = map_of
    [(''Typical (Staples + some meat)'', ''diet_typical''),
     (''Meat regularly'', ''diet_meat_regular''),
     (''Meat-Heavy'', ''diet_meat_heavy''),
     (''Average'', ''diet_average''),
     (''Vegetarian'', ''diet_vegetarian''),
     (''Vegan'', ''diet_vegan'')]"

section \<open>The calculation engine\<close>

text \<open>
  \<^verbatim>\<open>calculate_carbon_footprint\<close>, statement by statement. The two module-level tables are
  parameters of \<open>calc_with\<close>, so that what the function reads of them can be stated;
  \<open>calculate_carbon_footprint\<close> is \<open>calc_with\<close> at the tables of the module.

  \<open>entry\<close> is one statement \<^verbatim>\<open>breakdown[cat] = v * FACTORS[key] * n\<close> and \<open>entry1\<close> one
  statement \<^verbatim>\<open>breakdown[cat] = v * FACTORS[key]\<close>: the operand \<^verbatim>\<open>v\<close> is evaluated first, then
  the table is subscripted, then the products are taken from the left.
\<close>

definition entry :: "table \<Rightarrow> breakdown \<Rightarrow> string \<Rightarrow> pyval \<Rightarrow> string \<Rightarrow> int \<Rightarrow> error + breakdown" where
  "entry gef bd cat v key n =
     bind (lookup gef (Str key)) (\<lambda>f.
     bind (times_factor v f) (\<lambda>x.
     Inr (setitem bd cat (times_const x n))))"

definition entry1 :: "table \<Rightarrow> breakdown \<Rightarrow> string \<Rightarrow> pyval \<Rightarrow> string \<Rightarrow> error + breakdown" where
  "entry1 gef bd cat v key =
     bind (lookup gef (Str key)) (\<lambda>f.
     bind (times_factor v f) (\<lambda>x.
     Inr (setitem bd cat x)))"

definition housing :: "table \<Rightarrow> table \<Rightarrow> pydict \<Rightarrow> string \<Rightarrow> breakdown \<Rightarrow> error + breakdown" where
  "housing gef cgm data region bd =
     (if region = ''africa'' then
        bind (getitem data ''country'') (\<lambda>c.
        bind (lookup cgm c) (\<lambda>grid_factor.
        bind (getitem data ''electricity_kwh'') (\<lambda>e.
        bind (times_factor e grid_factor) (\<lambda>x.
        let bd1 = setitem bd ''Housing: Electricity'' (times_const x 12) in
        if data ''lpg_kg_per_month'' \<noteq> None then
          bind (getitem data ''lpg_kg_per_month'') (\<lambda>l.
          entry gef bd1 ''Housing: Cooking (LPG)'' l ''lpg_per_kg'' 12)
        else Inr bd1))))
      else
        bind (getitem data ''electricity_kwh'') (\<lambda>e.
        bind (entry gef bd ''Housing: Electricity'' e ''electricity'' 12) (\<lambda>bd1.
        bind (entry gef bd1 ''Housing: Natural Gas''
                (get_default data ''natural_gas_therms'' (PInt 0)) ''natural_gas'' 12) (\<lambda>bd2.
        bind (entry gef bd2 ''Housing: Heating Oil''
                (get_default data ''heating_oil_liters'' (PInt 0)) ''heating_oil'' 12) (\<lambda>bd3.
        entry gef bd3 ''Housing: Propane''
                (get_default data ''propane_liters'' (PInt 0)) ''propane'' 12)))))"

definition transport :: "table \<Rightarrow> pydict \<Rightarrow> string \<Rightarrow> breakdown \<Rightarrow> error + breakdown" where
  "transport gef data region bd =
     (if region = ''africa'' then
        bind (entry1 gef bd ''Transport: Car''
                (times_int (get_default data ''car_km_week'' (PInt 0)) 52) ''car_gasoline'') (\<lambda>bd1.
        bind (entry1 gef bd1 ''Transport: Motorcycle''
                (times_int (get_default data ''moto_km_week'' (PInt 0)) 52) ''motorcycle'') (\<lambda>bd2.
        entry1 gef bd2 ''Transport: Bus/Minibus''
                (times_int (get_default data ''bus_km_week'' (PInt 0)) 52) ''bus''))
      else
        bind (entry gef bd ''Transport: Car''
                (get_default data ''car_miles_week'' (PInt 0)) ''car_gasoline'' 52) (\<lambda>bd1.
        bind (entry gef bd1 ''Transport: Bus''
                (get_default data ''bus_miles_week'' (PInt 0)) ''bus'' 52) (\<lambda>bd2.
        entry gef bd2 ''Transport: Train''
                (get_default data ''train_miles_week'' (PInt 0)) ''train'' 52)))"

definition flights :: "table \<Rightarrow> pydict \<Rightarrow> breakdown \<Rightarrow> error + breakdown" where
  "flights gef data bd =
     bind (getitem data ''flight_hours'') (\<lambda>h.
     entry1 gef bd ''Transport: Flights'' (times_int h 500) ''plane_short'')"

definition diet :: "table \<Rightarrow> pydict \<Rightarrow> breakdown \<Rightarrow> error + breakdown" where
  "diet gef data bd =
     bind (getitem data ''diet'') (\<lambda>d.
     bind (lookup diet_map d) (\<lambda>diet_key.
     bind (lookup gef (Str diet_key)) (\<lambda>f.
     Inr (setitem bd ''Diet'' (times_const f 365)))))"

definition calc_with :: "table \<Rightarrow> table \<Rightarrow> pydict \<Rightarrow> string \<Rightarrow> error + (pyval \<times> breakdown)" where
  "calc_with gef cgm data region =
     bind (housing gef cgm data region []) (\<lambda>bd1.
     bind (transport gef data region bd1) (\<lambda>bd2.
     bind (flights gef data bd2) (\<lambda>bd3.
     bind (diet gef data bd3) (\<lambda>bd4.
     Inr (py_sum (values_of bd4), bd4)))))"

definition calculate_carbon_footprint :: "pydict \<Rightarrow> string \<Rightarrow> error + (pyval \<times> breakdown)" where
  "calculate_carbon_footprint data region =
     calc_with GLOBAL_EMISSION_FACTORS COUNTRY_GRID_MIX data region"

section \<open>The caller: input check and recommendations\<close>

text \<open>
  \<^verbatim>\<open>region.lower()\<close>, on the ASCII letters (the radio button offers \<^verbatim>\<open>"Global"\<close> and
  \<^verbatim>\<open>"Africa"\<close>).
\<close>

definition lower_char :: "char \<Rightarrow> char" where
  "lower_char c =
     (if 65 \<le> (of_char c :: nat) \<and> (of_char c :: nat) \<le> 90
      then char_of ((of_char c :: nat) + 32) else c)"

definition lower :: "string \<Rightarrow> string" where
  "lower s = map lower_char s"

text \<open>
  The check before the call. \<^verbatim>\<open>input_data.get("country")\<close> is \<^verbatim>\<open>None\<close> for a missing key,
  which differs from the sentinel string.
\<close>

definition valid_input :: "string \<Rightarrow> pydict \<Rightarrow> bool" where
  "valid_input region input_data =
     (if region \<noteq> ''Africa'' \<or>
         (region = ''Africa'' \<and> input_data ''country'' \<noteq> Some (Str ''Select Country''))
      then True else False)"

text \<open>\<^verbatim>\<open>sub in s\<close> on strings: \<^verbatim>\<open>sub\<close> occurs in \<^verbatim>\<open>s\<close> as a contiguous piece.\<close>

fun contains :: "string \<Rightarrow> string \<Rightarrow> bool" where
  "contains sub [] = (sub = [])"
| "contains sub (c # cs) = (take (length sub) (c # cs) = sub \<or> contains sub cs)"

text \<open>\<^verbatim>\<open>"Meat" in v\<close>: a number is not iterable, which raises TypeError.\<close>

fun py_in :: "string \<Rightarrow> pyval \<Rightarrow> error + bool" where
  "py_in sub (Str s) = Inr (contains sub s)"
| "py_in sub v = Inl TypeError"

type_synonym recommendation = "string \<times> int"

text \<open>
  \<^verbatim>\<open>recommendations.sort(key=lambda x: x[1], reverse=True)\<close>. Python's \<^verbatim>\<open>list.sort\<close> is the
  language's built-in stable sort, and \<^verbatim>\<open>reverse=True\<close> sorts as if every comparison were
  reversed, so that elements with equal keys keep their order. It is modelled by the
  stable insertion sort on the second component, greatest first.
\<close>

fun insert_desc :: "recommendation \<Rightarrow> recommendation list \<Rightarrow> recommendation list" where
  "insert_desc x [] = [x]"
| "insert_desc x (y # ys) = (if snd y \<le> snd x then x # y # ys else y # insert_desc x ys)"

fun sort_desc :: "recommendation list \<Rightarrow> recommendation list" where
  "sort_desc [] = []"
| "sort_desc (x # xs) = insert_desc x (sort_desc xs)"

text \<open>
  The four rules in the order of the source, each appending to the list when it fires
  (the advice texts are shortened to their ASCII wording). The diet rule reads
  \<^verbatim>\<open>input_data["diet"]\<close> only when its first condition holds (\<^verbatim>\<open>and\<close> short-circuits).
\<close>

definition emit :: "breakdown \<Rightarrow> string \<Rightarrow> pydict \<Rightarrow> error + recommendation list" where
  "emit breakdown_dict region input_data =
     (let r1 = (if exceeds (bd_get breakdown_dict ''Transport: Car'') 2000
                then [(''Reduce car travel by 20%.'', 400)] else []);
          r2 = r1 @ (if exceeds (bd_get breakdown_dict ''Housing: Electricity'') 1500
                then [(''Switch to energy-efficient appliances'', 500)] else []);
          r3 = r2 @ (if lower region = ''africa'' \<and>
                        exceeds (bd_get breakdown_dict ''Housing: Cooking (LPG)'') 500
                then [(''Improve cooking efficiency.'', 100)] else [])
      in if exceeds (bd_get breakdown_dict ''Diet'') 2000 then
           bind (getitem input_data ''diet'') (\<lambda>d.
           bind (py_in ''Meat'' d) (\<lambda>m.
           Inr (r3 @ (if m then [(''Reduce meat consumption.'', 200)] else []))))
         else Inr r3)"

definition recommendations :: "breakdown \<Rightarrow> string \<Rightarrow> pydict \<Rightarrow> error + recommendation list" where
  "recommendations breakdown_dict region input_data =
     bind (emit breakdown_dict region input_data) (\<lambda>rs. Inr (sort_desc rs))"

text \<open>
  The body under \<^verbatim>\<open>if calculate_button and valid_input\<close>: \<open>None\<close> when the condition is false
  (nothing is computed and nothing is raised), otherwise the outcome of the calculation
  followed by the recommendations.
\<close>

definition on_calculate ::
  "bool \<Rightarrow> string \<Rightarrow> pydict \<Rightarrow> (error + (pyval \<times> breakdown \<times> recommendation list)) option" where
  "on_calculate calculate_button region input_data =
     (if calculate_button \<and> valid_input region input_data then
        Some (bind (calculate_carbon_footprint input_data (lower region)) (\<lambda>(total_emissions, breakdown_dict).
              bind (recommendations breakdown_dict region input_data) (\<lambda>rs.
              Inr (total_emissions, breakdown_dict, rs))))
      else None)"

section \<open>Example inputs\<close>

text \<open>
  Scenario 3 of the specification: Kenya, 100 kWh, 6 kg of LPG (a float, the product of
  a cylinder size and a float quantity), vegan, no transport.
\<close>

definition scenario3 :: pydict where
  "scenario3 = map_of
    [(''country'', Str ''Kenya (Geothermal/Hydro)''),
     (''electricity_kwh'', PInt 100),
     (''lpg_kg_per_month'', PFloat (Fin 6)),
     (''car_km_week'', PInt 0),
     (''moto_km_week'', PInt 0),
     (''bus_km_week'', PInt 0),
     (''flight_hours'', PInt 0),
     (''diet'', Str ''Vegan'')]"

text \<open>Scenario 1: the global form with every slider at 0 and the vegan diet.\<close>

definition scenario1 :: pydict where
  "scenario1 = map_of
    [(''electricity_kwh'', PInt 0),
     (''natural_gas_therms'', PInt 0),
     (''heating_oil_liters'', PInt 0),
     (''propane_liters'', PInt 0),
     (''car_miles_week'', PInt 0),
     (''flight_hours'', PInt 0),
     (''bus_miles_week'', PInt 0),
     (''train_miles_week'', PInt 0),
     (''diet'', Str ''Vegan'')]"

text \<open>Scenario 3 with 31 km by car and 50 km by motorcycle a week.\<close>

definition scenario3_car :: pydict where
  "scenario3_car = scenario3(''car_km_week'' \<mapsto> PInt 31, ''moto_km_week'' \<mapsto> PInt 50)"

text \<open>Scenario 3 in Nigeria.\<close>

definition scenario3_nigeria :: pydict where
  "scenario3_nigeria = scenario3(''country'' \<mapsto> Str ''Nigeria (Gas-dominated)'')"


section \<open>Relating two runs\<close>

text \<open>
  Two runs are compared stage by stage. \<open>lift ex R\<close> relates two outcomes: when the first
  is a result, the second, if \<open>ex\<close> holds, is a result too and related by \<open>R\<close>, and
  otherwise is related by \<open>R\<close> whenever it is a result.
\<close>

definition lift :: "bool \<Rightarrow> ('a \<Rightarrow> 'b \<Rightarrow> bool) \<Rightarrow> error + 'a \<Rightarrow> error + 'b \<Rightarrow> bool" where
  "lift ex R m1 m2 =
     (\<forall>x. m1 = Inr x \<longrightarrow>
        (if ex then (\<exists>y. m2 = Inr y \<and> R x y) else (\<forall>y. m2 = Inr y \<longrightarrow> R x y)))"

definition bd_rel :: "(pyfloat \<Rightarrow> pyfloat \<Rightarrow> bool) \<Rightarrow> breakdown \<Rightarrow> breakdown \<Rightarrow> bool" where
  "bd_rel F b1 b2 = list_all2 (\<lambda>p q. fst p = fst q \<and> F (snd p) (snd q)) b1 b2"

definition dict_rel :: "(pyval \<Rightarrow> pyval \<Rightarrow> bool) \<Rightarrow> pydict \<Rightarrow> pydict \<Rightarrow> bool" where
  "dict_rel V d1 d2 = (\<forall>k. rel_option V (d1 k) (d2 k))"

text \<open>
  What the comparison needs of the relations: \<open>V\<close> relates the values of the two records,
  \<open>W\<close> the values about to be converted to floats, \<open>F\<close> the floats.
\<close>

definition sim ::
  "bool \<Rightarrow> (pyval \<Rightarrow> pyval \<Rightarrow> bool) \<Rightarrow> (pyval \<Rightarrow> pyval \<Rightarrow> bool) \<Rightarrow> (pyfloat \<Rightarrow> pyfloat \<Rightarrow> bool) \<Rightarrow> bool" where
  "sim ex V W F =
     ((\<forall>v. V v v) \<and>
      (\<forall>s w. V (Str s) w \<longrightarrow> w = Str s) \<and>
      (\<forall>v w. V v w \<longrightarrow> W v w \<and> W (times_int v 52) (times_int w 52) \<and>
                      W (times_int v 500) (times_int w 500)) \<and>
      (\<forall>v w. W v w \<longrightarrow> lift ex F (to_float v) (to_float w)) \<and>
      (\<forall>a. F a a) \<and>
      (\<forall>a b r. F a b \<longrightarrow> 0 \<le> r \<longrightarrow> F (fmul a (Fin r)) (fmul b (Fin r))))"

definition nonneg :: "table \<Rightarrow> bool" where
  "nonneg t = (\<forall>k f. t k = Some f \<longrightarrow> (\<exists>r. f = Fin r \<and> 0 \<le> r))"

text \<open>A float of the record is a double: it is its own rounding.\<close>

definition is_double :: "pyfloat \<Rightarrow> bool" where
  "is_double a = (case a of Fin r \<Rightarrow> round64 r = Fin r | _ \<Rightarrow> True)"

fun wf_val :: "pyval \<Rightarrow> bool" where
  "wf_val (PFloat a) = is_double a"
| "wf_val v = True"

text \<open>Python's \<^verbatim>\<open>x <= y\<close> on two numbers, which compares an integer with a float exactly.\<close>

fun num_le :: "pyval \<Rightarrow> pyval \<Rightarrow> bool" where
  "num_le (PInt i) (PInt j) = (i \<le> j)"
| "num_le (PInt i) (PFloat b) = fle (Fin (of_int i)) b"
| "num_le (PFloat a) (PInt j) = fle a (Fin (of_int j))"
| "num_le (PFloat a) (PFloat b) = fle a b"
| "num_le v w = False"

text \<open>The new value is not less than the old one (Python's \<^verbatim>\<open><\<close>).\<close>

definition not_less :: "pyfloat \<Rightarrow> pyfloat \<Rightarrow> bool" where
  "not_less a b = (\<not> flt b a)"

text \<open>\<^verbatim>\<open>-v\<close> on a number.\<close>

fun negate :: "pyval \<Rightarrow> pyval" where
  "negate (PInt i) = PInt (- i)"
| "negate (PFloat a) = PFloat (fneg a)"
| "negate (Str s) = Str s"

section \<open>Properties of the rounding\<close>

lemma ilog2_bounds:
  assumes "0 < q"
  shows "2 powi (ilog2 q) \<le> q \<and> q < 2 powi (ilog2 q + 1)"
proof -
  obtain n d where nd: "quotient_of q = (n, d)" by (cases "quotient_of q")
  then have d: "0 < d" and q: "q = of_int n / of_int d"
    by (auto dest: quotient_of_denom_pos quotient_of_div)
  with assms have n: "0 < n" by (simp add: zero_less_divide_iff)
  define bn where "bn = bitlen n"
  define bd where "bd = bitlen d"
  from bitlen_bounds [OF n] have n1: "2 ^ nat (bn - 1) \<le> n" and n2: "n < 2 ^ nat bn"
    by (simp_all add: bn_def)
  from bitlen_bounds [OF d] have d1: "2 ^ nat (bd - 1) \<le> d" and d2: "d < 2 ^ nat bd"
    by (simp_all add: bd_def)
  have bn1: "1 \<le> bn" using n n2 by (cases "bn \<le> 0") auto
  have bd1: "1 \<le> bd" using d d2 by (cases "bd \<le> 0") auto
  have pn1: "(2::rat) powi (bn - 1) \<le> of_int n"
  proof -
    have "(2::rat) powi (bn - 1) = 2 ^ nat (bn - 1)" using bn1 by (simp add: power_int_def)
    also have "\<dots> = of_int (2 ^ nat (bn - 1))" by simp
    also have "\<dots> \<le> of_int n" using n1 by (simp only: of_int_le_iff)
    finally show ?thesis .
  qed
  have pn2: "of_int n < (2::rat) powi bn"
  proof -
    have "(of_int n :: rat) < of_int (2 ^ nat bn)" using n2 by (simp only: of_int_less_iff)
    also have "\<dots> = 2 powi bn" using bn1 by (simp add: power_int_def)
    finally show ?thesis .
  qed
  have pd1: "(2::rat) powi (bd - 1) \<le> of_int d"
  proof -
    have "(2::rat) powi (bd - 1) = 2 ^ nat (bd - 1)" using bd1 by (simp add: power_int_def)
    also have "\<dots> = of_int (2 ^ nat (bd - 1))" by simp
    also have "\<dots> \<le> of_int d" using d1 by (simp only: of_int_le_iff)
    finally show ?thesis .
  qed
  have pd2: "of_int d < (2::rat) powi bd"
  proof -
    have "(of_int d :: rat) < of_int (2 ^ nat bd)" using d2 by (simp only: of_int_less_iff)
    also have "\<dots> = 2 powi bd" using bd1 by (simp add: power_int_def)
    finally show ?thesis .
  qed
  have dpos: "(0::rat) < of_int d" using d by simp
  have up: "q < 2 powi (bn - bd + 1)"
  proof -
    have "q * of_int d = of_int n" using q dpos by simp
    also have "\<dots> < 2 powi bn" by (rule pn2)
    also have "\<dots> = 2 powi (bn - bd + 1) * 2 powi (bd - 1)"
      by (simp flip: power_int_add)
    also have "\<dots> \<le> 2 powi (bn - bd + 1) * of_int d"
      using pd1 by (simp add: mult_left_mono)
    finally show ?thesis using dpos by simp
  qed
  have lo: "2 powi (bn - bd - 1) \<le> q"
  proof -
    have "2 powi (bn - bd - 1) * of_int d \<le> 2 powi (bn - bd - 1) * (2::rat) powi bd"
      using pd2 by (simp add: mult_left_mono)
    also have "\<dots> = 2 powi (bn - 1)" by (simp flip: power_int_add)
    also have "\<dots> \<le> of_int n" by (rule pn1)
    also have "\<dots> = q * of_int d" using q dpos by simp
    finally show ?thesis using dpos by simp
  qed
  show ?thesis
  proof (cases "2 powi (bn - bd) \<le> q")
    case True
    then have "ilog2 q = bn - bd" by (simp add: ilog2_def nd bn_def bd_def)
    with True up show ?thesis by simp
  next
    case False
    then have "ilog2 q = bn - bd - 1" by (simp add: ilog2_def nd bn_def bd_def)
    with False lo show ?thesis by simp
  qed
qed


lemma pow2_less_D: "(2::rat) powi a < 2 powi b \<Longrightarrow> a < b"
proof (rule ccontr)
  assume h: "(2::rat) powi a < 2 powi b" and "\<not> a < b"
  then have "b \<le> a" by simp
  then have "(2::rat) powi b \<le> 2 powi a" by (rule power_int_increasing) simp
  with h show False by simp
qed

lemma pow2_pos: "(0::rat) < 2 powi a"
  by (rule zero_less_power_int) simp

lemma pow2_add: "(2::rat) powi (a + b) = 2 powi a * 2 powi b"
  by (rule power_int_add) simp

lemma ilog2_unique:
  assumes "0 < q" "2 powi e \<le> q" "q < 2 powi (e + 1)"
  shows "ilog2 q = e"
proof -
  from ilog2_bounds [OF assms(1)] have
    b1: "2 powi (ilog2 q) \<le> q" and b2: "q < 2 powi (ilog2 q + 1)" by simp_all
  from b1 assms(3) have "(2::rat) powi (ilog2 q) < 2 powi (e + 1)" by simp
  then have "ilog2 q < e + 1" by (rule pow2_less_D)
  moreover from assms(2) b2 have "(2::rat) powi e < 2 powi (ilog2 q + 1)" by simp
  then have "e < ilog2 q + 1" by (rule pow2_less_D)
  ultimately show ?thesis by simp
qed

lemma ilog2_mono:
  assumes "0 < x" "x \<le> y"
  shows "ilog2 x \<le> ilog2 y"
proof -
  from assms have y: "0 < y" by simp
  from ilog2_bounds [OF assms(1)] ilog2_bounds [OF y] assms(2)
  have "(2::rat) powi (ilog2 x) < 2 powi (ilog2 y + 1)" by simp
  then have "ilog2 x < ilog2 y + 1" by (rule pow2_less_D)
  then show ?thesis by simp
qed

lemma rhe_cases: "round_half_even s = \<lfloor>s\<rfloor> \<or> round_half_even s = \<lfloor>s\<rfloor> + 1"
  by (simp add: round_half_even_def Let_def)

lemma rhe_nearest:
  assumes "\<bar>s - of_int m\<bar> < 1 / 2"
  shows "round_half_even s = m"
proof -
  define f where "f = \<lfloor>s\<rfloor>"
  have f: "of_int f \<le> s" "s < of_int f + 1" unfolding f_def by linarith+
  from assms have m: "s - 1 / 2 < of_int m" "of_int m < s + 1 / 2" by linarith+
  show ?thesis
  proof (cases "s - of_int f < 1 / 2")
    case True
    from m f True have "(of_int (f - 1) :: rat) < of_int m" "(of_int m :: rat) < of_int (f + 1)"
      by simp_all
    then have "f - 1 < m" "m < f + 1" by (simp_all only: of_int_less_iff)
    then have "m = f" by simp
    with True show ?thesis by (simp add: round_half_even_def Let_def f_def)
  next
    case False
    from m f False have "(of_int f :: rat) < of_int m" "(of_int m :: rat) < of_int (f + 2)"
      by simp_all
    then have "f < m" "m < f + 2" by (simp_all only: of_int_less_iff)
    then have mf: "m = f + 1" by simp
    with m have "1 / 2 < s - of_int f" by simp
    with mf show ?thesis by (simp add: round_half_even_def Let_def f_def)
  qed
qed

lemma rhe_of_int: "round_half_even (of_int k) = k"
  by (rule rhe_nearest) simp

lemma rhe_mono:
  assumes "s \<le> t"
  shows "round_half_even s \<le> round_half_even t"
proof -
  from assms have ft: "\<lfloor>s\<rfloor> \<le> \<lfloor>t\<rfloor>" by (rule floor_mono)
  show ?thesis
  proof (cases "\<lfloor>s\<rfloor> = \<lfloor>t\<rfloor>")
    case True
    with assms show ?thesis
      by (auto simp: round_half_even_def Let_def)
  next
    case False
    with ft have "\<lfloor>s\<rfloor> + 1 \<le> \<lfloor>t\<rfloor>" by simp
    with rhe_cases [of s] rhe_cases [of t] show ?thesis by auto
  qed
qed

lemma grid_mono:
  assumes "x \<le> y"
  shows "grid u x \<le> grid u y"
proof -
  from assms have "x / 2 powi u \<le> y / 2 powi u"
    by (rule divide_right_mono) (simp add: pow2_pos less_imp_le)
  then have "round_half_even (x / 2 powi u) \<le> round_half_even (y / 2 powi u)"
    by (rule rhe_mono)
  then have "(of_int (round_half_even (x / 2 powi u)) :: rat) \<le> of_int (round_half_even (y / 2 powi u))"
    by (simp only: of_int_le_iff)
  then show ?thesis
    unfolding grid_def by (rule mult_right_mono) (simp add: pow2_pos less_imp_le)
qed

lemma grid_fix: "grid u (of_int k * 2 powi u) = of_int k * 2 powi u"
  using pow2_pos [of u] by (simp add: grid_def rhe_of_int)

lemma grid_fix_pow2: "u \<le> e \<Longrightarrow> grid u (2 powi e) = 2 powi e"
proof -
  assume "u \<le> e"
  then have "(2::rat) powi e = of_int (2 ^ nat (e - u)) * 2 powi u"
    using pow2_add [of "e - u" u] by (simp add: power_int_def)
  then show ?thesis using grid_fix [of u "2 ^ nat (e - u)"] by simp
qed

lemma round_pos_grid:
  "round_pos q = (if 2 powi 1024 \<le> grid (ulp_exp q) q then PInf else Fin (grid (ulp_exp q) q))"
  by (simp add: round_pos_def Let_def)

lemma round_grid_mono:
  assumes "0 < x" "x \<le> y"
  shows "grid (ulp_exp x) x \<le> grid (ulp_exp y) y"
proof -
  from assms have y: "0 < y" by simp
  have e: "ilog2 x \<le> ilog2 y" using assms by (rule ilog2_mono)
  then have u: "ulp_exp x \<le> ulp_exp y" by (simp add: ulp_exp_def)
  show ?thesis
  proof (cases "ulp_exp x = ulp_exp y")
    case True
    with assms(2) show ?thesis by (simp add: grid_mono)
  next
    case False
    with u have lt: "ulp_exp x < ulp_exp y" by simp
    then have uy: "ulp_exp y = ilog2 y - 52" and exy: "ilog2 x + 1 \<le> ilog2 y"
      by (auto simp: ulp_exp_def max_def split: if_splits)
    let ?P = "(2::rat) powi (ilog2 y)"
    from ilog2_bounds [OF assms(1)] have "x < 2 powi (ilog2 x + 1)" by simp
    also have "\<dots> \<le> ?P" using exy by (rule power_int_increasing) simp
    finally have xP: "x \<le> ?P" by simp
    from ilog2_bounds [OF y] have Py: "?P \<le> y" by simp
    have "grid (ulp_exp x) x \<le> grid (ulp_exp x) ?P" using xP by (rule grid_mono)
    also have "\<dots> = ?P" using lt uy by (intro grid_fix_pow2) simp
    also have "\<dots> = grid (ulp_exp y) ?P" using uy by (intro grid_fix_pow2 [symmetric]) simp
    also have "\<dots> \<le> grid (ulp_exp y) y" using Py by (rule grid_mono)
    finally show ?thesis .
  qed
qed

lemma grid_nonneg: "0 \<le> q \<Longrightarrow> 0 \<le> grid u q"
  using grid_mono [of 0 q u] by (simp add: grid_def rhe_of_int [of 0, simplified])



lemma round_pos_nonneg: "0 < q \<Longrightarrow> fle (Fin 0) (round_pos q)"
  by (simp add: round_pos_grid grid_nonneg)

lemma round_pos_mono:
  assumes "0 < x" "x \<le> y"
  shows "fle (round_pos x) (round_pos y)"
  using round_grid_mono [OF assms] by (auto simp: round_pos_grid)

lemma round_pos_not_NaN: "round_pos q \<noteq> NaN" "round_pos q \<noteq> NInf"
  by (simp_all add: round_pos_grid)

lemma round64_not_NaN: "round64 q \<noteq> NaN"
proof -
  have "fneg a \<noteq> NaN" if "a \<noteq> NaN" for a using that by (cases a) auto
  then show ?thesis by (simp add: round64_def round_pos_not_NaN)
qed

lemma fle_fneg: "fle a b \<Longrightarrow> fle (fneg b) (fneg a)"
  by (cases a; cases b) auto

lemma fle_trans: "fle a b \<Longrightarrow> fle b c \<Longrightarrow> fle a c"
  by (cases a; cases b; cases c) auto

lemma fle_refl: "a \<noteq> NaN \<Longrightarrow> fle a a"
  by (cases a) auto

lemma round64_neg: "round64 (- q) = fneg (round64 q)"
proof -
  have "fneg (fneg a) = a" for a by (cases a) auto
  then show ?thesis by (auto simp: round64_def)
qed

lemma round64_nonneg: "0 \<le> q \<Longrightarrow> fle (Fin 0) (round64 q)"
  by (auto simp: round64_def round_pos_nonneg)

lemma round64_nonpos: "q \<le> 0 \<Longrightarrow> fle (round64 q) (Fin 0)"
  using round64_nonneg [of "- q"] fle_fneg [of "Fin 0" "round64 (- q)"]
  by (simp add: round64_neg) (cases "round64 q"; simp)

lemma round64_mono:
  assumes "x \<le> y"
  shows "fle (round64 x) (round64 y)"
proof -
  consider "0 < x" | "y < 0" | "x \<le> 0" "0 \<le> y" by linarith
  then show ?thesis
  proof cases
    case 1
    with assms show ?thesis by (simp add: round64_def round_pos_mono)
  next
    case 2
    with assms have "0 < - y" "- y \<le> - x" by simp_all
    then have "fle (round_pos (- y)) (round_pos (- x))" by (rule round_pos_mono)
    then have "fle (fneg (round_pos (- x))) (fneg (round_pos (- y)))" by (rule fle_fneg)
    with 2 assms show ?thesis by (simp add: round64_def)
  next
    case 3
    then show ?thesis by (blast intro: fle_trans round64_nonneg round64_nonpos)
  qed
qed

lemma round64_grid:
  assumes "2 powi (u + 52) \<le> q" "q < 2 powi (u + 53)" "- 1074 \<le> u" "u \<le> 970"
  shows "round64 q = Fin (grid u q)"
proof -
  have q: "0 < q" using assms(1) pow2_pos [of "u + 52"] by linarith
  have "ilog2 q = u + 52" using q assms(1,2) by (intro ilog2_unique) (simp_all add: add.assoc)
  with assms(3) have u: "ulp_exp q = u" by (simp add: ulp_exp_def)
  have "grid u q \<le> grid u (2 powi (u + 53))" using assms(2) by (intro grid_mono) simp
  also have "\<dots> = 2 powi (u + 53)" by (rule grid_fix_pow2) simp
  also have "\<dots> < 2 powi 1024" using assms(4) by (intro power_int_strict_increasing) simp_all
  finally have "\<not> 2 powi 1024 \<le> grid u q" by simp
  with q u show ?thesis by (simp add: round64_def round_pos_grid)
qed

lemma rhe_tie: "round_half_even (of_int m + 1 / 2) = (if even m then m else m + 1)"
proof -
  have "\<lfloor>of_int m + 1 / 2 :: rat\<rfloor> = m" by (simp add: floor_eq_iff)
  then show ?thesis by (simp add: round_half_even_def)
qed

lemma pow2_neg: "(2::rat) powi (- int k) = 1 / 2 ^ k"
  by (simp add: power_int_def field_simps)

lemma frac_bounds:
  assumes "2 ^ 52 \<le> (q::rat) * 2 ^ k" "q * 2 ^ k < 2 ^ 53"
  shows "2 powi (- int k + 52) \<le> q" "q < 2 powi (- int k + 53)"
proof -
  have k: "(0::rat) < 2 ^ k" by simp
  have "(2::rat) powi (- int k + 52) = 2 powi (- int k) * 2 powi 52" by (rule pow2_add)
  also have "\<dots> = 2 ^ 52 / 2 ^ k" by (simp add: pow2_neg)
  also have "\<dots> \<le> q" using assms(1) k by (simp add: pos_divide_le_eq)
  finally show "2 powi (- int k + 52) \<le> q" .
  have "q < 2 ^ 53 / 2 ^ k" using assms(2) k by (simp add: pos_less_divide_eq)
  also have "\<dots> = 2 powi (- int k) * 2 powi 53" by (simp add: pow2_neg)
  also have "\<dots> = 2 powi (- int k + 53)" by (rule pow2_add [symmetric])
  finally show "q < 2 powi (- int k + 53)" .
qed

lemma round64_eq_frac:
  assumes "2 ^ 52 \<le> q * 2 ^ k" "q * 2 ^ k < 2 ^ 53" "k \<le> 1074"
    and "\<bar>q * 2 ^ k - of_int m\<bar> < 1 / 2"
  shows "round64 q = Fin (of_int m / 2 ^ k)"
proof -
  have "round64 q = Fin (grid (- int k) q)"
    using frac_bounds [OF assms(1,2)] assms(3) by (intro round64_grid) simp_all
  moreover have "round_half_even (q / 2 powi (- int k)) = m"
    using assms(4) by (intro rhe_nearest) (simp add: pow2_neg)
  ultimately show ?thesis by (simp add: grid_def pow2_neg)
qed

lemma round64_eq_tie:
  assumes "2 ^ 52 \<le> q * 2 ^ k" "q * 2 ^ k < 2 ^ 53" "k \<le> 1074"
    and "q * 2 ^ k = of_int m + 1 / 2"
  shows "round64 q = Fin (of_int (if even m then m else m + 1) / 2 ^ k)"
proof -
  have "round64 q = Fin (grid (- int k) q)"
    using frac_bounds [OF assms(1,2)] assms(3) by (intro round64_grid) simp_all
  moreover have "round_half_even (q / 2 powi (- int k)) = (if even m then m else m + 1)"
    using rhe_tie [of m] assms(4) by (simp add: pow2_neg)
  ultimately show ?thesis by (simp add: grid_def pow2_neg)
qed

lemma round64_overflow:
  assumes "2 powi 1024 \<le> q"
  shows "round64 q = PInf"
proof -
  have q: "0 < q" using assms pow2_pos [of 1024] by simp
  from ilog2_bounds [OF q] assms have "(2::rat) powi 1024 < 2 powi (ilog2 q + 1)" by simp
  then have e: "1024 \<le> ilog2 q" using pow2_less_D by fastforce
  then have u: "ulp_exp q \<le> ilog2 q" by (simp add: ulp_exp_def)
  have "(2::rat) powi 1024 \<le> 2 powi (ilog2 q)" using e by (rule power_int_increasing) simp
  also have "\<dots> = grid (ulp_exp q) (2 powi (ilog2 q))" using u by (simp add: grid_fix_pow2)
  also have "\<dots> \<le> grid (ulp_exp q) q" using ilog2_bounds [OF q] by (intro grid_mono) simp
  finally show ?thesis using q by (simp add: round64_def round_pos_grid)
qed





lemma rhe_half: "round_half_even (1 / 2) = 0"
proof -
  have "\<lfloor>1 / 2 :: rat\<rfloor> = 0" by (simp add: floor_eq_iff)
  then show ?thesis by (simp add: round_half_even_def)
qed

lemma grid_idem:
  assumes q: "0 < q" and r: "r = grid (ulp_exp q) q" and rp: "0 < r"
  shows "grid (ulp_exp r) r = r"
proof -
  define e where "e = ilog2 q"
  define u where "u = ulp_exp q"
  define m where "m = round_half_even (q / 2 powi u)"
  have rm: "r = of_int m * 2 powi u" by (simp add: r grid_def m_def u_def)
  from ilog2_bounds [OF q] have q1: "2 powi e \<le> q" and q2: "q < 2 powi (e + 1)"
    by (simp_all add: e_def)
  have u1: "- 1074 \<le> u" and u2: "e - 52 \<le> u" by (simp_all add: u_def ulp_exp_def e_def)
  have m1: "1 \<le> m"
  proof -
    from rp rm pow2_pos [of u] have "(0::rat) < of_int m" by (simp add: zero_less_mult_iff)
    then show ?thesis by simp
  qed
  have r1: "2 powi u \<le> r"
  proof -
    from m1 have "(1::rat) \<le> of_int m" by simp
    then have "1 * 2 powi u \<le> of_int m * (2::rat) powi u"
      by (rule mult_right_mono) (simp add: pow2_pos less_imp_le)
    then show ?thesis by (simp add: rm)
  qed
  have ue: "u \<le> e + 1"
  proof -
    have "\<not> q / 2 powi u < 1 / 2"
    proof
      assume "q / 2 powi u < 1 / 2"
      then have "round_half_even (q / 2 powi u) \<le> round_half_even (1 / 2)"
        by (intro rhe_mono) simp
      with m1 show False by (simp add: m_def rhe_half)
    qed
    then have "2 powi u \<le> q * 2" using pow2_pos [of u] by (simp add: field_simps)
    also have "\<dots> < 2 powi (e + 1) * 2" using q2 by simp
    also have "\<dots> = 2 powi (e + 1 + 1)" unfolding pow2_add [of "e + 1" 1] by simp
    finally have "u < e + 1 + 1" by (rule pow2_less_D)
    then show ?thesis by simp
  qed
  have r2: "r \<le> 2 powi (e + 1)"
  proof -
    have "r \<le> grid u (2 powi (e + 1))" unfolding r u_def [symmetric] using q2 by (intro grid_mono) simp
    also have "\<dots> = 2 powi (e + 1)" using ue by (rule grid_fix_pow2)
    finally show ?thesis .
  qed
  show ?thesis
  proof (cases "r = 2 powi (e + 1)")
    case True
    have "ilog2 r = e + 1"
      using rp by (rule ilog2_unique) (simp_all add: True power_int_strict_increasing)
    then have "ulp_exp r \<le> e + 1" using u1 ue by (simp add: ulp_exp_def)
    then show ?thesis unfolding True by (rule grid_fix_pow2)
  next
    case False
    with r2 have lt: "r < 2 powi (e + 1)" by simp
    with r1 have "(2::rat) powi u < 2 powi (e + 1)" by simp
    then have "u < e + 1" by (rule pow2_less_D)
    then have "u \<le> e" by simp
    then have "grid u (2 powi e) = 2 powi e" by (rule grid_fix_pow2)
    moreover have "grid u (2 powi e) \<le> r" unfolding r u_def [symmetric] using q1 by (rule grid_mono)
    ultimately have "2 powi e \<le> r" by simp
    with rp lt have "ilog2 r = e" by (intro ilog2_unique)
    then have "ulp_exp r = u" by (simp add: ulp_exp_def u_def e_def)
    then show ?thesis by (simp add: rm grid_fix)
  qed
qed

lemma round_pos_idem:
  assumes "0 < q" "round_pos q = Fin r"
  shows "round64 r = Fin r"
proof -
  from assms(2) have r: "r = grid (ulp_exp q) q" and lt: "\<not> 2 powi 1024 \<le> r"
    by (auto simp: round_pos_grid split: if_splits)
  from assms(1) have "0 \<le> r" unfolding r by (intro grid_nonneg) simp
  show ?thesis
  proof (cases "r = 0")
    case True
    then show ?thesis by (simp add: round64_def)
  next
    case False
    with \<open>0 \<le> r\<close> have rp: "0 < r" by simp
    from grid_idem [OF assms(1) r rp] lt rp show ?thesis
      by (simp add: round64_def round_pos_grid)
  qed
qed

lemma round64_idem:
  assumes "round64 q = Fin r"
  shows "round64 r = Fin r"
proof -
  consider "q = 0" | "0 < q" | "q < 0" by linarith
  then show ?thesis
  proof cases
    case 1
    with assms show ?thesis by (simp add: round64_def)
  next
    case 2
    with assms have "round_pos q = Fin r" by (simp add: round64_def)
    with 2 show ?thesis by (rule round_pos_idem)
  next
    case 3
    with assms have "fneg (round_pos (- q)) = Fin r" by (simp add: round64_def)
    then have "round_pos (- q) = Fin (- r)" by (cases "round_pos (- q)") auto
    with 3 have "round64 (- r) = Fin (- r)" by (intro round_pos_idem [of "- q"]) simp_all
    then have "fneg (round64 r) = Fin (- r)" by (simp add: round64_neg)
    then show ?thesis by (cases "round64 r") auto
  qed
qed

lemma not_less_iff: "not_less a b \<longleftrightarrow> a = NaN \<or> b = NaN \<or> fle a b"
  by (cases a; cases b) (auto simp: not_less_def flt_def)

lemma fle_PInf: "a \<noteq> NaN \<Longrightarrow> fle a PInf"
  by (cases a) auto

lemma fle_NInf: "a \<noteq> NaN \<Longrightarrow> fle NInf a"
  by (cases a) auto

lemma fmul_mono:
  assumes "fle a b" "0 \<le> f"
  shows "not_less (fmul a (Fin f)) (fmul b (Fin f))"
proof (cases "fmul a (Fin f) = NaN \<or> fmul b (Fin f) = NaN")
  case True
  then show ?thesis by (auto simp: not_less_iff)
next
  case False
  have "fle (fmul a (Fin f)) (fmul b (Fin f))"
  proof (cases a)
    case (Fin x)
    show ?thesis
    proof (cases b)
      case (Fin y)
      with \<open>a = Fin x\<close> assms show ?thesis
        by (simp add: round64_mono mult_right_mono)
    qed (use False Fin assms in \<open>auto simp: fle_PInf round64_not_NaN split: if_splits\<close>)
  next
    case PInf
    with assms have "b = PInf" by (cases b) auto
    with PInf False show ?thesis by (auto split: if_splits)
  next
    case NInf
    with False assms show ?thesis
      by (cases b) (auto simp: fle_NInf round64_not_NaN split: if_splits)
  next
    case NaN
    with assms show ?thesis by simp
  qed
  then show ?thesis by (simp add: not_less_iff)
qed

lemma fmul_not_less:
  assumes "not_less a b" "0 \<le> f"
  shows "not_less (fmul a (Fin f)) (fmul b (Fin f))"
proof -
  from assms(1) consider "a = NaN" | "b = NaN" | "fle a b" by (auto simp: not_less_iff)
  then show ?thesis
  proof cases
    case 3
    then show ?thesis using assms(2) by (rule fmul_mono)
  qed (simp_all add: not_less_iff)
qed

lemma fadd_mono:
  assumes "fle a b" "fle c d"
  shows "not_less (fadd a c) (fadd b d)"
proof (cases "fadd a c = NaN \<or> fadd b d = NaN")
  case True
  then show ?thesis by (auto simp: not_less_iff)
next
  case False
  with assms have "fle (fadd a c) (fadd b d)"
    by (cases a; cases b; cases c; cases d)
      (auto simp: round64_mono add_mono fle_PInf fle_NInf round64_not_NaN)
  then show ?thesis by (simp add: not_less_iff)
qed

lemma fadd_NaN: "fadd a NaN = NaN" "fadd NaN a = NaN"
  by (cases a; simp)+

lemma fmul_NaN: "fmul a NaN = NaN" "fmul NaN a = NaN"
  by (cases a; simp)+

lemma fadd_not_less:
  assumes "not_less a b" "not_less c d"
  shows "not_less (fadd a c) (fadd b d)"
proof (cases "a = NaN \<or> b = NaN \<or> c = NaN \<or> d = NaN")
  case True
  then show ?thesis by (auto simp: not_less_iff fadd_NaN)
next
  case False
  with assms have "fle a b" "fle c d" by (auto simp: not_less_iff)
  then show ?thesis by (rule fadd_mono)
qed

lemma fneg_fmul: "fmul (fneg a) b = fneg (fmul a b)"
  by (cases a; cases b) (auto simp: round64_neg)

lemma fadd_zero_round: "fadd (round64 q) (Fin 0) = round64 q"
  by (cases "round64 q") (auto simp: round64_idem round64_not_NaN)

section \<open>Roundings that occur in the examples\<close>

lemma r64_0: "round64 0 = Fin 0"
  by (simp add: round64_def)

lemma r64_1: "round64 (1 / 20) = Fin (3602879701896397 / 72057594037927936)"
  using round64_eq_frac [where q = "1 / 20" and k = 57 and m = 7205759403792794] by simp

lemma r64_2: "round64 (3 / 50) = Fin (1080863910568919 / 18014398509481984)"
  using round64_eq_frac [where q = "3 / 50" and k = 57 and m = 8646911284551352] by simp

lemma r64_3: "round64 (11 / 100) = Fin (7926335344172073 / 72057594037927936)"
  using round64_eq_frac [where q = "11 / 100" and k = 56 and m = 7926335344172073] by simp

lemma r64_4: "round64 (6 / 25) = Fin (1080863910568919 / 4503599627370496)"
  using round64_eq_frac [where q = "6 / 25" and k = 55 and m = 8646911284551352] by simp

lemma r64_5: "round64 (27 / 100) = Fin (607985949695017 / 2251799813685248)"
  using round64_eq_frac [where q = "27 / 100" and k = 54 and m = 4863887597560136] by simp

lemma r64_6: "round64 (3 / 10) = Fin (5404319552844595 / 18014398509481984)"
  using round64_eq_frac [where q = "3 / 10" and k = 54 and m = 5404319552844595] by simp

lemma r64_7: "round64 (31 / 100) = Fin (5584463537939415 / 18014398509481984)"
  using round64_eq_frac [where q = "31 / 100" and k = 54 and m = 5584463537939415] by simp

lemma r64_8: "round64 (9 / 20) = Fin (8106479329266893 / 18014398509481984)"
  using round64_eq_frac [where q = "9 / 20" and k = 54 and m = 8106479329266893] by simp

lemma r64_9: "round64 (12 / 25) = Fin (1080863910568919 / 2251799813685248)"
  using round64_eq_frac [where q = "12 / 25" and k = 54 and m = 8646911284551352] by simp

lemma r64_10: "round64 (1 / 2) = Fin (1 / 2)"
  using round64_eq_frac [where q = "1 / 2" and k = 53 and m = 4503599627370496] by simp

lemma r64_11: "round64 (11 / 20) = Fin (2476979795053773 / 4503599627370496)"
  using round64_eq_frac [where q = "11 / 20" and k = 53 and m = 4953959590107546] by simp

lemma r64_12: "round64 (5404319552844595 / 9007199254740992) = Fin (5404319552844595 / 9007199254740992)"
  using round64_eq_frac [where q = "5404319552844595 / 9007199254740992" and k = 53 and m = 5404319552844595] by simp

lemma r64_13: "round64 (3 / 5) = Fin (5404319552844595 / 9007199254740992)"
  using round64_eq_frac [where q = "3 / 5" and k = 53 and m = 5404319552844595] by simp

lemma r64_14: "round64 (9 / 10) = Fin (8106479329266893 / 9007199254740992)"
  using round64_eq_frac [where q = "9 / 10" and k = 53 and m = 8106479329266893] by simp

lemma r64_15: "round64 1 = Fin 1"
  using round64_eq_frac [where q = "1" and k = 52 and m = 4503599627370496] by simp

lemma r64_16: "round64 (6 / 5) = Fin (5404319552844595 / 4503599627370496)"
  using round64_eq_frac [where q = "6 / 5" and k = 52 and m = 5404319552844595] by simp

lemma r64_17: "round64 (3 / 2) = Fin (3 / 2)"
  using round64_eq_frac [where q = "3 / 2" and k = 52 and m = 6755399441055744] by simp

lemma r64_18: "round64 (9 / 5) = Fin (8106479329266893 / 4503599627370496)"
  using round64_eq_frac [where q = "9 / 5" and k = 52 and m = 8106479329266893] by simp

lemma r64_int_2: "round64 2 = Fin 2"
  using round64_eq_frac [where q = "2" and k = 51 and m = 4503599627370496] by simp

lemma r64_20: "round64 (39631676720860365 / 18014398509481984) = Fin (2476979795053773 / 1125899906842624)"
  using round64_eq_frac [where q = "39631676720860365 / 18014398509481984" and k = 51 and m = 4953959590107546] by simp

lemma r64_21: "round64 (5 / 2) = Fin (5 / 2)"
  using round64_eq_frac [where q = "5 / 2" and k = 51 and m = 5629499534213120] by simp

lemma r64_22: "round64 (67 / 25) = Fin (6034823500676465 / 2251799813685248)"
  using round64_eq_frac [where q = "67 / 25" and k = 51 and m = 6034823500676465] by simp

lemma r64_23: "round64 (27 / 10) = Fin (3039929748475085 / 1125899906842624)"
  using round64_eq_frac [where q = "27 / 10" and k = 51 and m = 6079859496950170] by simp

lemma r64_int_3: "round64 3 = Fin 3"
  using round64_eq_frac [where q = "3" and k = 51 and m = 6755399441055744] by simp

lemma r64_25: "round64 (33 / 10) = Fin (3715469692580659 / 1125899906842624)"
  using round64_eq_frac [where q = "33 / 10" and k = 51 and m = 7430939385161318] by simp

lemma r64_26: "round64 6 = Fin 6"
  using round64_eq_frac [where q = "6" and k = 50 and m = 6755399441055744] by simp

lemma r64_27: "round64 10 = Fin 10"
  using round64_eq_frac [where q = "10" and k = 49 and m = 5629499534213120] by simp

lemma r64_int_12: "round64 12 = Fin 12"
  using round64_eq_frac [where q = "12" and k = 49 and m = 6755399441055744] by simp

lemma r64_29: "round64 18 = Fin 18"
  using round64_eq_frac [where q = "18" and k = 48 and m = 5066549580791808] by simp

lemma r64_30: "round64 20 = Fin 20"
  using round64_eq_frac [where q = "20" and k = 48 and m = 5629499534213120] by simp

lemma r64_31: "round64 (135107988821114875 / 4503599627370496) = Fin 30"
  using round64_eq_frac [where q = "135107988821114875 / 4503599627370496" and k = 48 and m = 8444249301319680] by simp

lemma r64_32: "round64 (139611588448485375 / 4503599627370496) = Fin 31"
  using round64_eq_frac [where q = "139611588448485375 / 4503599627370496" and k = 48 and m = 8725724278030336] by simp

lemma r64_33: "round64 (70256154186979735 / 2251799813685248) = Fin (8782019273372467 / 281474976710656)"
  using round64_eq_frac [where q = "70256154186979735 / 2251799813685248" and k = 48 and m = 8782019273372467] by simp

lemma r64_34: "round64 40 = Fin 40"
  using round64_eq_frac [where q = "40" and k = 47 and m = 5629499534213120] by simp

lemma r64_35: "round64 50 = Fin 50"
  using round64_eq_frac [where q = "50" and k = 47 and m = 7036874417766400] by simp

lemma r64_int_52: "round64 52 = Fin 52"
  using round64_eq_frac [where q = "52" and k = 47 and m = 7318349394477056] by simp

lemma r64_37: "round64 (61924494876344325 / 1125899906842624) = Fin (7740561859543041 / 140737488355328)"
  using round64_eq_frac [where q = "61924494876344325 / 1125899906842624" and k = 47 and m = 7740561859543041] by simp

lemma r64_38: "round64 80 = Fin 80"
  using round64_eq_frac [where q = "80" and k = 46 and m = 5629499534213120] by simp

lemma r64_39: "round64 100 = Fin 100"
  using round64_eq_frac [where q = "100" and k = 46 and m = 7036874417766400] by simp

lemma r64_40: "round64 (32200737335699049 / 281474976710656) = Fin (4025092166962381 / 35184372088832)"
  using round64_eq_frac [where q = "32200737335699049 / 281474976710656" and k = 46 and m = 8050184333924762] by simp

lemma r64_41: "round64 150 = Fin 150"
  using round64_eq_frac [where q = "150" and k = 45 and m = 5277655813324800] by simp

lemma r64_42: "round64 216 = Fin 216"
  using round64_eq_frac [where q = "216" and k = 45 and m = 7599824371187712] by simp

lemma r64_43: "round64 (2576058986855923725 / 9007199254740992) = Fin 286"
  using round64_eq_frac [where q = "2576058986855923725 / 9007199254740992" and k = 44 and m = 5031365208702976] by simp

lemma r64_44: "round64 300 = Fin 300"
  using round64_eq_frac [where q = "300" and k = 44 and m = 5277655813324800] by simp

lemma r64_45: "round64 360 = Fin 360"
  using round64_eq_frac [where q = "360" and k = 44 and m = 6333186975989760] by simp

lemma r64_int_365: "round64 365 = Fin 365"
  using round64_eq_frac [where q = "365" and k = 44 and m = 6421147906211840] by simp

lemma r64_47: "round64 432 = Fin 432"
  using round64_eq_frac [where q = "432" and k = 44 and m = 7599824371187712] by simp

lemma r64_48: "round64 (1972576636788277175 / 4503599627370496) = Fin 438"
  using round64_eq_frac [where q = "1972576636788277175 / 4503599627370496" and k = 44 and m = 7705377487454208] by simp

lemma r64_49: "round64 438 = Fin 438"
  using round64_eq_frac [where q = "438" and k = 44 and m = 7705377487454208] by simp

lemma r64_50: "round64 (2250538805789584245 / 4503599627370496) = Fin (8791167210115563 / 17592186044416)"
  using round64_eq_frac [where q = "2250538805789584245 / 4503599627370496" and k = 44 and m = 8791167210115563] by simp

lemma r64_int_500: "round64 500 = Fin 500"
  using round64_eq_frac [where q = "500" and k = 44 and m = 8796093022208000] by simp

lemma r64_52: "round64 576 = Fin 576"
  using round64_eq_frac [where q = "576" and k = 43 and m = 5066549580791808] by simp

lemma r64_53: "round64 (675539944105574375 / 1125899906842624) = Fin 600"
  using round64_eq_frac [where q = "675539944105574375 / 1125899906842624" and k = 43 and m = 5277655813324800] by simp

lemma r64_54: "round64 600 = Fin 600"
  using round64_eq_frac [where q = "600" and k = 43 and m = 5277655813324800] by simp

lemma r64_55: "round64 654 = Fin 654"
  using round64_eq_frac [where q = "654" and k = 43 and m = 5752644836524032] by simp

lemma r64_56: "round64 (23221685578629123 / 35184372088832) = Fin (5805421394657281 / 8796093022208)"
  using round64_eq_frac [where q = "23221685578629123 / 35184372088832" and k = 43 and m = 5805421394657281] by simp

lemma r64_57: "round64 (5805421394657281 / 8796093022208) = Fin (5805421394657281 / 8796093022208)"
  using round64_eq_frac [where q = "5805421394657281 / 8796093022208" and k = 43 and m = 5805421394657281] by simp

lemma r64_58: "round64 798 = Fin 798"
  using round64_eq_frac [where q = "798" and k = 43 and m = 7019282231721984] by simp

lemma r64_59: "round64 (7705377487454209 / 8796093022208) = Fin (7705377487454209 / 8796093022208)"
  using round64_eq_frac [where q = "7705377487454209 / 8796093022208" and k = 43 and m = 7705377487454209] by simp

lemma r64_60: "round64 960 = Fin 960"
  using round64_eq_frac [where q = "960" and k = 43 and m = 8444249301319680] by simp

lemma r64_61: "round64 1014 = Fin 1014"
  using round64_eq_frac [where q = "1014" and k = 43 and m = 8919238324518912] by simp

lemma r64_62: "round64 1038 = Fin 1038"
  using round64_eq_frac [where q = "1038" and k = 42 and m = 4565172278525952] by simp

lemma r64_63: "round64 (18924266371699179 / 17592186044416) = Fin (4731066592924795 / 4398046511104)"
  using round64_eq_frac [where q = "18924266371699179 / 17592186044416" and k = 42 and m = 4731066592924795] by simp

lemma r64_64: "round64 (1356146437791940535 / 1125899906842624) = Fin (2409 / 2)"
  using round64_eq_frac [where q = "1356146437791940535 / 1125899906842624" and k = 42 and m = 5297447022624768] by simp

lemma r64_65: "round64 (11558066231181313 / 8796093022208) = Fin 1314"
  using round64_eq_tie [where q = "11558066231181313 / 8796093022208" and k = 42 and m = 5779033115590656] by simp

lemma r64_66: "round64 (5988907895100539 / 4398046511104) = Fin (5988907895100539 / 4398046511104)"
  using round64_eq_frac [where q = "5988907895100539 / 4398046511104" and k = 42 and m = 5988907895100539] by simp

lemma r64_67: "round64 1362 = Fin 1362"
  using round64_eq_frac [where q = "1362" and k = 42 and m = 5990139348123648] by simp

lemma r64_68: "round64 1612 = Fin 1612"
  using round64_eq_frac [where q = "1612" and k = 42 and m = 7089650975899648] by simp

lemma r64_69: "round64 (3561 / 2) = Fin (3561 / 2)"
  using round64_eq_frac [where q = "3561 / 2" and k = 42 and m = 7830721813020672] by simp

lemma r64_70: "round64 (7915252266964091 / 4398046511104) = Fin (7915252266964091 / 4398046511104)"
  using round64_eq_frac [where q = "7915252266964091 / 4398046511104" and k = 42 and m = 7915252266964091] by simp

lemma r64_71: "round64 1800 = Fin 1800"
  using round64_eq_frac [where q = "1800" and k = 42 and m = 7916483719987200] by simp

lemma r64_72: "round64 2238 = Fin 2238"
  using round64_eq_frac [where q = "2238" and k = 41 and m = 4921414045925376] by simp

lemma r64_73: "round64 2500 = Fin 2500"
  using round64_eq_frac [where q = "2500" and k = 41 and m = 5497558138880000] by simp

lemma r64_74: "round64 2600 = Fin 2600"
  using round64_eq_frac [where q = "2600" and k = 41 and m = 5717460464435200] by simp

lemma r64_75: "round64 2760 = Fin 2760"
  using round64_eq_frac [where q = "2760" and k = 41 and m = 6069304185323520] by simp

lemma r64_76: "round64 4372 = Fin 4372"
  using round64_eq_frac [where q = "4372" and k = 40 and m = 4807064836636672] by simp

lemma r64_77: "round64 (157851166939335885 / 35184372088832) = Fin (2466424483427123 / 549755813888)"
  using round64_eq_frac [where q = "157851166939335885 / 35184372088832" and k = 40 and m = 4932848966854246] by simp

lemma r64_78: "round64 (1271591354788059443 / 281474976710656) = Fin (4967153729640857 / 1099511627776)"
  using round64_eq_frac [where q = "1271591354788059443 / 281474976710656" and k = 40 and m = 4967153729640857] by simp

lemma r64_79: "round64 (5626860706306457 / 1099511627776) = Fin (5626860706306457 / 1099511627776)"
  using round64_eq_frac [where q = "5626860706306457 / 1099511627776" and k = 40 and m = 5626860706306457] by simp

lemma r64_80: "round64 (6951222461962649 / 1099511627776) = Fin (6951222461962649 / 1099511627776)"
  using round64_eq_frac [where q = "6951222461962649 / 1099511627776" and k = 40 and m = 6951222461962649] by simp

lemmas r64 = round64_neg
  r64_0 r64_1 r64_2 r64_3 r64_4 r64_5 r64_6 r64_7
  r64_8 r64_9 r64_10 r64_11 r64_12 r64_13 r64_14 r64_15
  r64_16 r64_17 r64_18 r64_int_2 r64_20 r64_21 r64_22 r64_23
  r64_int_3 r64_25 r64_26 r64_27 r64_int_12 r64_29 r64_30 r64_31
  r64_32 r64_33 r64_34 r64_35 r64_int_52 r64_37 r64_38 r64_39
  r64_40 r64_41 r64_42 r64_43 r64_44 r64_45 r64_int_365 r64_47
  r64_48 r64_49 r64_50 r64_int_500 r64_52 r64_53 r64_54 r64_55
  r64_56 r64_57 r64_58 r64_59 r64_60 r64_61 r64_62 r64_63
  r64_64 r64_65 r64_66 r64_67 r64_68 r64_69 r64_70 r64_71
  r64_72 r64_73 r64_74 r64_75 r64_76 r64_77 r64_78 r64_79
  r64_80

section \<open>Evaluating the definitions\<close>

lemmas calc_defs = calculate_carbon_footprint_def calc_with_def housing_def transport_def
  flights_def diet_def entry_def entry1_def bind_def getitem_def get_default_def
  times_factor_def times_const_def
  GLOBAL_EMISSION_FACTORS_def COUNTRY_GRID_MIX_def diet_map_def py_sum_def values_of_def

lemma lower_Africa: "lower ''Africa'' = ''africa''"
  by code_simp

lemma scenario3_result:
  "calculate_carbon_footprint scenario3 ''africa'' =
     Inr (PFloat (Fin 1014),
           [(''Housing: Electricity'', Fin 360),
            (''Housing: Cooking (LPG)'', Fin 216),
            (''Transport: Car'', Fin 0),
            (''Transport: Motorcycle'', Fin 0),
            (''Transport: Bus/Minibus'', Fin 0),
            (''Transport: Flights'', Fin 0),
            (''Diet'', Fin 438)])"
  by (simp add: calc_defs scenario3_def r64)

lemma scenario1_result:
  "calculate_carbon_footprint scenario1 ''global'' =
     Inr (PFloat (Fin 438),
           [(''Housing: Electricity'', Fin 0),
            (''Housing: Natural Gas'', Fin 0),
            (''Housing: Heating Oil'', Fin 0),
            (''Housing: Propane'', Fin 0),
            (''Transport: Car'', Fin 0),
            (''Transport: Bus'', Fin 0),
            (''Transport: Train'', Fin 0),
            (''Transport: Flights'', Fin 0),
            (''Diet'', Fin 438)])"
  by (simp add: calc_defs scenario1_def r64)

lemma scenario3_car_result:
  "calculate_carbon_footprint scenario3_car ''africa'' =
     Inr (PFloat (Fin (7915252266964091 / 4398046511104)),
           [(''Housing: Electricity'', Fin 360),
            (''Housing: Cooking (LPG)'', Fin 216),
            (''Transport: Car'', Fin (8791167210115563 / 17592186044416)),
            (''Transport: Motorcycle'', Fin 286),
            (''Transport: Bus/Minibus'', Fin 0),
            (''Transport: Flights'', Fin 0),
            (''Diet'', Fin 438)])"
  by (simp add: calc_defs scenario3_car_def scenario3_def r64)

lemma scenario3_nigeria_result:
  "calculate_carbon_footprint scenario3_nigeria ''africa'' =
     Inr (PFloat (Fin 1314),
           [(''Housing: Electricity'', Fin (5805421394657281 / 8796093022208)),
            (''Housing: Cooking (LPG)'', Fin 216),
            (''Transport: Car'', Fin 0),
            (''Transport: Motorcycle'', Fin 0),
            (''Transport: Bus/Minibus'', Fin 0),
            (''Transport: Flights'', Fin 0),
            (''Diet'', Fin 438)])"
  by (simp add: calc_defs scenario3_nigeria_def scenario3_def r64)


lemma scenario1_electricity_100:
  "calculate_carbon_footprint (scenario1(''electricity_kwh'' \<mapsto> PInt 100)) ''global'' =
     Inr (PFloat (Fin 1038),
           [(''Housing: Electricity'', Fin 600),
            (''Housing: Natural Gas'', Fin 0),
            (''Housing: Heating Oil'', Fin 0),
            (''Housing: Propane'', Fin 0),
            (''Transport: Car'', Fin 0),
            (''Transport: Bus'', Fin 0),
            (''Transport: Train'', Fin 0),
            (''Transport: Flights'', Fin 0),
            (''Diet'', Fin 438)])"
  by (simp add: calc_defs scenario1_def r64)

lemma scenario1_electricity_300:
  "calculate_carbon_footprint (scenario1(''electricity_kwh'' \<mapsto> PInt 300)) ''global'' =
     Inr (PFloat (Fin 2238),
           [(''Housing: Electricity'', Fin 1800),
            (''Housing: Natural Gas'', Fin 0),
            (''Housing: Heating Oil'', Fin 0),
            (''Housing: Propane'', Fin 0),
            (''Transport: Car'', Fin 0),
            (''Transport: Bus'', Fin 0),
            (''Transport: Train'', Fin 0),
            (''Transport: Flights'', Fin 0),
            (''Diet'', Fin 438)])"
  by (simp add: calc_defs scenario1_def r64)

lemma scenario1_electricity_minus_300:
  "calculate_carbon_footprint (scenario1(''electricity_kwh'' \<mapsto> PInt (- 300))) ''global'' =
     Inr (PFloat (Fin (- 1362)),
           [(''Housing: Electricity'', Fin (- 1800)),
            (''Housing: Natural Gas'', Fin 0),
            (''Housing: Heating Oil'', Fin 0),
            (''Housing: Propane'', Fin 0),
            (''Transport: Car'', Fin 0),
            (''Transport: Bus'', Fin 0),
            (''Transport: Train'', Fin 0),
            (''Transport: Flights'', Fin 0),
            (''Diet'', Fin 438)])"
  by (simp add: calc_defs scenario1_def r64)

lemma scenario3_no_lpg:
  "calculate_carbon_footprint (scenario3(''lpg_kg_per_month'' := None)) ''africa'' =
     Inr (PFloat (Fin 798),
           [(''Housing: Electricity'', Fin 360),
            (''Transport: Car'', Fin 0),
            (''Transport: Motorcycle'', Fin 0),
            (''Transport: Bus/Minibus'', Fin 0),
            (''Transport: Flights'', Fin 0),
            (''Diet'', Fin 438)])"
  by (simp add: calc_defs scenario3_def r64)

lemma scenario3_lpg_0:
  "calculate_carbon_footprint (scenario3(''lpg_kg_per_month'' \<mapsto> PInt 0)) ''africa'' =
     Inr (PFloat (Fin 798),
           [(''Housing: Electricity'', Fin 360),
            (''Housing: Cooking (LPG)'', Fin 0),
            (''Transport: Car'', Fin 0),
            (''Transport: Motorcycle'', Fin 0),
            (''Transport: Bus/Minibus'', Fin 0),
            (''Transport: Flights'', Fin 0),
            (''Diet'', Fin 438)])"
  by (simp add: calc_defs scenario3_def r64)

section \<open>When a stage succeeds\<close>

lemma bind_Inl [simp]: "bind (Inl e) f = Inl e"
  by (simp add: bind_def)

lemma bind_Inr [simp]: "bind (Inr x) f = f x"
  by (simp add: bind_def)

lemma bind_eq_Inr: "bind m f = Inr y \<longleftrightarrow> (\<exists>x. m = Inr x \<and> f x = Inr y)"
  by (cases m) simp_all

lemma getitem_Inr: "getitem d k = Inr v \<longleftrightarrow> d k = Some v"
  by (simp add: getitem_def split: option.splits)

lemma lookup_Inr: "lookup t v = Inr f \<longleftrightarrow> (\<exists>k. v = Str k \<and> t k = Some f)"
  by (cases v) (auto split: option.splits)

lemma times_factor_Inr: "times_factor v f = Inr y \<longleftrightarrow> (\<exists>a. to_float v = Inr a \<and> y = fmul a f)"
  by (auto simp: times_factor_def bind_eq_Inr)

lemma entry_Inr:
  "entry gef bd cat v key n = Inr bd' \<longleftrightarrow>
     (\<exists>f a. gef key = Some f \<and> to_float v = Inr a \<and>
        bd' = setitem bd cat (times_const (fmul a f) n))"
  by (auto simp: entry_def bind_eq_Inr times_factor_Inr split: option.splits)

lemma entry1_Inr:
  "entry1 gef bd cat v key = Inr bd' \<longleftrightarrow>
     (\<exists>f a. gef key = Some f \<and> to_float v = Inr a \<and> bd' = setitem bd cat (fmul a f))"
  by (auto simp: entry1_def bind_eq_Inr times_factor_Inr split: option.splits)

lemma calc_with_Inr:
  "calc_with gef cgm data region = Inr (t, bd) \<longleftrightarrow>
     (\<exists>bd1 bd2 bd3. housing gef cgm data region [] = Inr bd1 \<and>
        transport gef data region bd1 = Inr bd2 \<and> flights gef data bd2 = Inr bd3 \<and>
        diet gef data bd3 = Inr bd \<and> t = py_sum (values_of bd))"
  unfolding calc_with_def by (auto simp: bind_eq_Inr)

section \<open>The total and the breakdown\<close>







lemma diet_Inr:
  "diet gef data bd = Inr bd' \<longleftrightarrow>
     (\<exists>d dk f. data ''diet'' = Some (Str d) \<and> diet_map d = Some dk \<and> gef dk = Some f \<and>
        bd' = setitem bd ''Diet'' (times_const f 365))"
  by (auto simp del: lookup.simps simp: diet_def bind_eq_Inr getitem_Inr lookup_Inr)





section \<open>The africa region in closed form\<close>

lemma gef_simps:
  "GLOBAL_EMISSION_FACTORS ''electricity'' = Some (round64 (5 / 10))"
  "GLOBAL_EMISSION_FACTORS ''natural_gas'' = Some (round64 2)"
  "GLOBAL_EMISSION_FACTORS ''heating_oil'' = Some (round64 (268 / 100))"
  "GLOBAL_EMISSION_FACTORS ''propane'' = Some (round64 (15 / 10))"
  "GLOBAL_EMISSION_FACTORS ''car_gasoline'' = Some (round64 (31 / 100))"
  "GLOBAL_EMISSION_FACTORS ''motorcycle'' = Some (round64 (11 / 100))"
  "GLOBAL_EMISSION_FACTORS ''bus'' = Some (round64 (11 / 100))"
  "GLOBAL_EMISSION_FACTORS ''train'' = Some (round64 (6 / 100))"
  "GLOBAL_EMISSION_FACTORS ''plane_short'' = Some (round64 (24 / 100))"
  "GLOBAL_EMISSION_FACTORS ''lpg_per_kg'' = Some (round64 3)"
  by (simp_all add: GLOBAL_EMISSION_FACTORS_def)

lemma times_const_simps:
  "times_const x 12 = fmul x (Fin 12)"
  "times_const x 52 = fmul x (Fin 52)"
  "times_const x 365 = fmul x (Fin 365)"
  by (simp_all add: times_const_def r64_int_12 r64_int_52 r64_int_365)

lemma africa_result:
  assumes "calculate_carbon_footprint data ''africa'' = Inr (t, bd)"
  shows "\<exists>c g e ef carf motof busf h hf d dk df.
     data ''country'' = Some (Str c) \<and> COUNTRY_GRID_MIX c = Some g \<and>
     data ''electricity_kwh'' = Some e \<and> to_float e = Inr ef \<and>
     to_float (times_int (get_default data ''car_km_week'' (PInt 0)) 52) = Inr carf \<and>
     to_float (times_int (get_default data ''moto_km_week'' (PInt 0)) 52) = Inr motof \<and>
     to_float (times_int (get_default data ''bus_km_week'' (PInt 0)) 52) = Inr busf \<and>
     data ''flight_hours'' = Some h \<and> to_float (times_int h 500) = Inr hf \<and>
     data ''diet'' = Some (Str d) \<and> diet_map d = Some dk \<and>
     GLOBAL_EMISSION_FACTORS dk = Some df \<and>
     (case data ''lpg_kg_per_month'' of
        None \<Rightarrow> bd = [(''Housing: Electricity'', fmul (fmul ef g) (Fin 12)),
           (''Transport: Car'', fmul carf (round64 (31 / 100))),
           (''Transport: Motorcycle'', fmul motof (round64 (11 / 100))),
           (''Transport: Bus/Minibus'', fmul busf (round64 (11 / 100))),
           (''Transport: Flights'', fmul hf (round64 (24 / 100))),
           (''Diet'', fmul df (Fin 365))]
      | Some l \<Rightarrow> \<exists>lf. to_float l = Inr lf \<and> bd = [(''Housing: Electricity'', fmul (fmul ef g) (Fin 12)),
           (''Housing: Cooking (LPG)'', fmul (fmul lf (round64 3)) (Fin 12)),
           (''Transport: Car'', fmul carf (round64 (31 / 100))),
           (''Transport: Motorcycle'', fmul motof (round64 (11 / 100))),
           (''Transport: Bus/Minibus'', fmul busf (round64 (11 / 100))),
           (''Transport: Flights'', fmul hf (round64 (24 / 100))),
           (''Diet'', fmul df (Fin 365))])"
  using assms
  unfolding calculate_carbon_footprint_def calc_with_Inr housing_def transport_def flights_def
  by (auto simp del: lookup.simps to_float.simps times_int.simps
       simp: bind_eq_Inr entry_Inr entry1_Inr diet_Inr getitem_Inr lookup_Inr times_factor_Inr
         Let_def gef_simps times_const_simps split: if_splits option.splits)

text \<open>
  Claim C2. In the africa region a returned breakdown holds Housing: Electricity as the
  monthly \<^verbatim>\<open>electricity_kwh\<close> times the grid factor of the selected country times 12, Housing:
  Cooking (LPG), when \<^verbatim>\<open>lpg_kg_per_month\<close> is present, as the monthly kg times 3.0 times 12
  (and no such category otherwise), and Diet as the factor of the diet label times 365, each
  product being the float product of the code, taken from the left. For Kenya with 100 kWh,
  6 kg of LPG, the vegan diet and no transport or flights the three values are 360, 216 and
  438 and the total is 360 + 216 + 438 = 1014, without any rounding error.
\<close>

theorem africa_housing_and_diet:
  "(calculate_carbon_footprint data ''africa'' = Inr (t, bd) \<longrightarrow>
      (\<exists>c g e ef d dk df.
         data ''country'' = Some (Str c) \<and> COUNTRY_GRID_MIX c = Some g \<and>
         data ''electricity_kwh'' = Some e \<and> to_float e = Inr ef \<and>
         map_of bd ''Housing: Electricity'' = Some (fmul (fmul ef g) (Fin 12)) \<and>
         (case data ''lpg_kg_per_month'' of
            None \<Rightarrow> map_of bd ''Housing: Cooking (LPG)'' = None
          | Some l \<Rightarrow> \<exists>lf. to_float l = Inr lf \<and>
              map_of bd ''Housing: Cooking (LPG)'' = Some (fmul (fmul lf (Fin 3)) (Fin 12))) \<and>
         data ''diet'' = Some (Str d) \<and> diet_map d = Some dk \<and>
         GLOBAL_EMISSION_FACTORS dk = Some df \<and> map_of bd ''Diet'' = Some (fmul df (Fin 365)))) \<and>
   calculate_carbon_footprint scenario3 ''africa'' =
     Inr (PFloat (Fin (360 + 216 + 438)),
       [(''Housing: Electricity'', Fin 360), (''Housing: Cooking (LPG)'', Fin 216),
        (''Transport: Car'', Fin 0), (''Transport: Motorcycle'', Fin 0),
        (''Transport: Bus/Minibus'', Fin 0), (''Transport: Flights'', Fin 0),
        (''Diet'', Fin 438)]) \<and>
   (360 + 216 + 438 :: rat) = 1014"
proof (intro conjI impI)
  assume "calculate_carbon_footprint data ''africa'' = Inr (t, bd)"
  from africa_result [OF this] show "\<exists>c g e ef d dk df.
         data ''country'' = Some (Str c) \<and> COUNTRY_GRID_MIX c = Some g \<and>
         data ''electricity_kwh'' = Some e \<and> to_float e = Inr ef \<and>
         map_of bd ''Housing: Electricity'' = Some (fmul (fmul ef g) (Fin 12)) \<and>
         (case data ''lpg_kg_per_month'' of
            None \<Rightarrow> map_of bd ''Housing: Cooking (LPG)'' = None
          | Some l \<Rightarrow> \<exists>lf. to_float l = Inr lf \<and>
              map_of bd ''Housing: Cooking (LPG)'' = Some (fmul (fmul lf (Fin 3)) (Fin 12))) \<and>
         data ''diet'' = Some (Str d) \<and> diet_map d = Some dk \<and>
         GLOBAL_EMISSION_FACTORS dk = Some df \<and> map_of bd ''Diet'' = Some (fmul df (Fin 365))"
    by (cases "data ''lpg_kg_per_month''") (auto simp: r64_int_3)
next
  show "calculate_carbon_footprint scenario3 ''africa'' =
     Inr (PFloat (Fin (360 + 216 + 438)),
       [(''Housing: Electricity'', Fin 360), (''Housing: Cooking (LPG)'', Fin 216),
        (''Transport: Car'', Fin 0), (''Transport: Motorcycle'', Fin 0),
        (''Transport: Bus/Minibus'', Fin 0), (''Transport: Flights'', Fin 0),
        (''Diet'', Fin 438)])"
    using scenario3_result by simp
next
  show "(360 + 216 + 438 :: rat) = 1014" by simp
qed

theorem africa_housing_and_diet_witness:
  "calculate_carbon_footprint scenario3_nigeria ''africa'' =
     Inr (PFloat (Fin 1314),
           [(''Housing: Electricity'', Fin (5805421394657281 / 8796093022208)),
            (''Housing: Cooking (LPG)'', Fin 216),
            (''Transport: Car'', Fin 0),
            (''Transport: Motorcycle'', Fin 0),
            (''Transport: Bus/Minibus'', Fin 0),
            (''Transport: Flights'', Fin 0),
            (''Diet'', Fin 438)]) \<and>
   COUNTRY_GRID_MIX ''Nigeria (Gas-dominated)'' = Some (round64 (55 / 100)) \<and>
   fmul (fmul (Fin 100) (round64 (55 / 100))) (Fin 12) = Fin (5805421394657281 / 8796093022208) \<and>
   fmul (fmul (Fin 6) (Fin 3)) (Fin 12) = Fin 216 \<and>
   diet_map ''Vegan'' = Some ''diet_vegan'' \<and>
   GLOBAL_EMISSION_FACTORS ''diet_vegan'' = Some (round64 (12 / 10)) \<and>
   fmul (round64 (12 / 10)) (Fin 365) = Fin 438"
  using africa_housing_and_diet [of scenario3_nigeria "PFloat (Fin 1314)"
      "[(''Housing: Electricity'', Fin (5805421394657281 / 8796093022208)),
            (''Housing: Cooking (LPG)'', Fin 216),
            (''Transport: Car'', Fin 0),
            (''Transport: Motorcycle'', Fin 0),
            (''Transport: Bus/Minibus'', Fin 0),
            (''Transport: Flights'', Fin 0),
            (''Diet'', Fin 438)]"]
    scenario3_nigeria_result
  by (simp add: COUNTRY_GRID_MIX_def diet_map_def GLOBAL_EMISSION_FACTORS_def r64)

text \<open>
  Claim C3. In the africa region each transport category of a returned breakdown is the
  weekly distance in kilometres times 52 times the factor of \<^verbatim>\<open>GLOBAL_EMISSION_FACTORS\<close>
  (nominally per mile), with no conversion between miles and kilometres: Transport: Car is
  \<^verbatim>\<open>car_km_week\<close> times 52, as a float, times the float 0.31, the gasoline-car factor;
  motorcycle and bus use 0.11. A missing distance counts as 0.
\<close>

theorem africa_transport_unconverted:
  assumes "calculate_carbon_footprint data ''africa'' = Inr (t, bd)"
  shows "\<exists>carf motof busf.
     to_float (times_int (get_default data ''car_km_week'' (PInt 0)) 52) = Inr carf \<and>
     to_float (times_int (get_default data ''moto_km_week'' (PInt 0)) 52) = Inr motof \<and>
     to_float (times_int (get_default data ''bus_km_week'' (PInt 0)) 52) = Inr busf \<and>
     GLOBAL_EMISSION_FACTORS ''car_gasoline'' = Some (round64 (31 / 100)) \<and>
     GLOBAL_EMISSION_FACTORS ''motorcycle'' = Some (round64 (11 / 100)) \<and>
     GLOBAL_EMISSION_FACTORS ''bus'' = Some (round64 (11 / 100)) \<and>
     map_of bd ''Transport: Car'' = Some (fmul carf (round64 (31 / 100))) \<and>
     map_of bd ''Transport: Motorcycle'' = Some (fmul motof (round64 (11 / 100))) \<and>
     map_of bd ''Transport: Bus/Minibus'' = Some (fmul busf (round64 (11 / 100)))"
  using africa_result [OF assms]
  by (cases "data ''lpg_kg_per_month''") (auto simp: gef_simps)

theorem africa_transport_unconverted_witness:
  "calculate_carbon_footprint scenario3_car ''africa'' =
     Inr (PFloat (Fin (7915252266964091 / 4398046511104)),
           [(''Housing: Electricity'', Fin 360),
            (''Housing: Cooking (LPG)'', Fin 216),
            (''Transport: Car'', Fin (8791167210115563 / 17592186044416)),
            (''Transport: Motorcycle'', Fin 286),
            (''Transport: Bus/Minibus'', Fin 0),
            (''Transport: Flights'', Fin 0),
            (''Diet'', Fin 438)]) \<and>
   to_float (times_int (get_default scenario3_car ''car_km_week'' (PInt 0)) 52) = Inr (Fin (31 * 52)) \<and>
   fmul (Fin (31 * 52)) (round64 (31 / 100)) = Fin (8791167210115563 / 17592186044416) \<and>
   to_float (times_int (get_default scenario3_car ''moto_km_week'' (PInt 0)) 52) = Inr (Fin (50 * 52)) \<and>
   fmul (Fin (50 * 52)) (round64 (11 / 100)) = Fin 286"
  using africa_transport_unconverted [OF scenario3_car_result] scenario3_car_result
  by (simp add: get_default_def scenario3_car_def scenario3_def r64)

section \<open>The sentinel country and the caller's check\<close>

text \<open>
  Claim C4, as stated, fails on the function: called with the sentinel country, the
  calculation finds the sentinel in \<^verbatim>\<open>COUNTRY_GRID_MIX\<close> with factor 0.0, raises nothing and
  returns a numeric result.
\<close>

theorem sentinel_country_is_computed:
  "calculate_carbon_footprint (scenario3(''country'' \<mapsto> Str ''Select Country'')) ''africa'' =
     Inr (PFloat (Fin 654),
           [(''Housing: Electricity'', Fin 0),
            (''Housing: Cooking (LPG)'', Fin 216),
            (''Transport: Car'', Fin 0),
            (''Transport: Motorcycle'', Fin 0),
            (''Transport: Bus/Minibus'', Fin 0),
            (''Transport: Flights'', Fin 0),
            (''Diet'', Fin 438)])"
  by (simp add: calc_defs scenario3_def r64)

lemma housing_no_country:
  "data ''country'' = None \<Longrightarrow>
   housing gef cgm data ''africa'' bd = Inl (KeyError (Str ''country''))"
  by (simp add: housing_def getitem_def)

text \<open>
  Claim C4, amended. The sentinel is excluded by the caller's check: with the region
  \<^verbatim>\<open>"Africa"\<close> and the country \<^verbatim>\<open>"Select Country"\<close>, \<^verbatim>\<open>valid_input\<close> is false, the calculation is not
  called, and neither a result nor an error is produced. With the country missing, \<^verbatim>\<open>valid_input\<close>
  is true and the calculation raises the KeyError of the subscript \<^verbatim>\<open>data["country"]\<close>, its
  first operation, so that no arithmetic has run and no result is returned.
\<close>

theorem sentinel_excluded_by_caller:
  "(input_data ''country'' = Some (Str ''Select Country'') \<longrightarrow>
      \<not> valid_input ''Africa'' input_data \<and>
      on_calculate calculate_button ''Africa'' input_data = None) \<and>
   (input_data ''country'' = None \<longrightarrow>
      calculate_carbon_footprint input_data ''africa'' = Inl (KeyError (Str ''country'')) \<and>
      on_calculate True ''Africa'' input_data = Some (Inl (KeyError (Str ''country''))))"
proof (intro conjI impI)
  assume s: "input_data ''country'' = Some (Str ''Select Country'')"
  then show "\<not> valid_input ''Africa'' input_data"
    by (simp add: valid_input_def)
  then show "on_calculate calculate_button ''Africa'' input_data = None"
    by (simp add: on_calculate_def)
next
  assume n: "input_data ''country'' = None"
  then show c: "calculate_carbon_footprint input_data ''africa'' = Inl (KeyError (Str ''country''))"
    by (simp add: calculate_carbon_footprint_def calc_with_def housing_no_country)
  from n have "valid_input ''Africa'' input_data"
    by (simp add: valid_input_def)
  then show "on_calculate True ''Africa'' input_data = Some (Inl (KeyError (Str ''country'')))"
    using c by (simp add: on_calculate_def lower_Africa)
qed

theorem sentinel_excluded_by_caller_witness:
  "on_calculate True ''Africa'' (scenario3(''country'' \<mapsto> Str ''Select Country'')) = None \<and>
   calculate_carbon_footprint (scenario3(''country'' := None)) ''africa'' =
     Inl (KeyError (Str ''country''))"
  using sentinel_excluded_by_caller [of "scenario3(''country'' \<mapsto> Str ''Select Country'')" True]
    sentinel_excluded_by_caller [of "scenario3(''country'' := None)" True]
  by simp

section \<open>Diet labels\<close>

text \<open>
  Claim C5, as stated, fails: \<^verbatim>\<open>diet_map\<close> is one map for both regions, so that a label the
  africa form does not offer, such as \<^verbatim>\<open>"Meat-Heavy"\<close>, is computed in the africa region.
\<close>

theorem meat_heavy_accepted_in_africa:
  "calculate_carbon_footprint (scenario3(''diet'' \<mapsto> Str ''Meat-Heavy'')) ''africa'' =
     Inr (PFloat (Fin (3561 / 2)),
           [(''Housing: Electricity'', Fin 360),
            (''Housing: Cooking (LPG)'', Fin 216),
            (''Transport: Car'', Fin 0),
            (''Transport: Motorcycle'', Fin 0),
            (''Transport: Bus/Minibus'', Fin 0),
            (''Transport: Flights'', Fin 0),
            (''Diet'', Fin (2409 / 2))])"
  by (simp add: calc_defs scenario3_def r64)

lemma diet_unknown:
  assumes "\<forall>k. data ''diet'' = Some (Str k) \<longrightarrow> diet_map k = None"
  shows "diet gef data bd =
     Inl (KeyError (case data ''diet'' of None \<Rightarrow> Str ''diet'' | Some v \<Rightarrow> v))"
proof (cases "data ''diet''")
  case None
  then show ?thesis by (simp add: diet_def getitem_def)
next
  case (Some v)
  with assms show ?thesis
    by (cases v) (simp_all add: diet_def getitem_def)
qed

lemma calc_with_diet_Inl:
  assumes "\<And>bd. diet gef data bd = Inl e"
  shows "\<exists>e'. calc_with gef cgm data region = Inl e'"
  unfolding calc_with_def
  by (auto simp: bind_def assms split: sum.splits)

text \<open>
  Claim C5, amended. For every input whose diet is not one of the six labels of
  \<^verbatim>\<open>diet_map\<close> (a string outside the map, a value that is no string, or no diet at all), in
  either region, the calculation fails with an error and returns no result; the diet step
  itself raises the KeyError of the failed subscript and never substitutes a factor.
\<close>

theorem unknown_diet_label_fails:
  assumes "\<forall>k. data ''diet'' = Some (Str k) \<longrightarrow> diet_map k = None"
  shows "(\<exists>e. calculate_carbon_footprint data region = Inl e) \<and>
     diet GLOBAL_EMISSION_FACTORS data bd =
       Inl (KeyError (case data ''diet'' of None \<Rightarrow> Str ''diet'' | Some v \<Rightarrow> v))"
proof -
  have d: "diet GLOBAL_EMISSION_FACTORS data b =
      Inl (KeyError (case data ''diet'' of None \<Rightarrow> Str ''diet'' | Some v \<Rightarrow> v))" for b
    using assms by (rule diet_unknown [where data = data])
  then have "\<exists>e. calc_with GLOBAL_EMISSION_FACTORS COUNTRY_GRID_MIX data region = Inl e"
    by (rule calc_with_diet_Inl)
  with d show ?thesis
    by (simp add: calculate_carbon_footprint_def)
qed

theorem unknown_diet_label_fails_witness:
  "diet_map ''Pescatarian'' = None \<and>
   (\<exists>e. calculate_carbon_footprint (scenario1(''diet'' \<mapsto> Str ''Pescatarian'')) ''global'' = Inl e) \<and>
   diet GLOBAL_EMISSION_FACTORS (scenario1(''diet'' \<mapsto> Str ''Pescatarian'')) [] =
     Inl (KeyError (Str ''Pescatarian''))"
  using unknown_diet_label_fails [where data = "scenario1(''diet'' \<mapsto> Str ''Pescatarian'')"
      and region = "''global''" and bd = "[]"]
  by (simp add: diet_map_def)

section \<open>Region isolation\<close>

lemma diet_keys: "diet_map d = Some dk \<Longrightarrow> dk \<noteq> ''electricity''"
  by (auto simp: diet_map_def split: if_splits)

lemma diet_electricity:
  "diet (gef(''electricity'' := v)) data bd = diet gef data bd"
proof (cases "data ''diet''")
  case None
  then show ?thesis by (simp add: diet_def getitem_def)
next
  case (Some d)
  show ?thesis
  proof (cases "lookup diet_map d")
    case (Inl e)
    with Some show ?thesis by (simp add: diet_def getitem_def)
  next
    case (Inr dk)
    then have "dk \<noteq> ''electricity''"
      by (auto simp: lookup_Inr dest: diet_keys)
    with Some Inr show ?thesis by (simp add: diet_def getitem_def)
  qed
qed

lemma entry_electricity:
  "key \<noteq> ''electricity'' \<Longrightarrow>
   entry (gef(''electricity'' := v)) bd cat x key n = entry gef bd cat x key n"
  "key \<noteq> ''electricity'' \<Longrightarrow>
   entry1 (gef(''electricity'' := v)) bd cat x key = entry1 gef bd cat x key"
  by (simp_all add: entry_def entry1_def)

text \<open>
  Claim C10. The result of the africa-region calculation is the same whatever the entry
  \<^verbatim>\<open>"electricity"\<close> of the emission-factor table is changed to (or when it is removed), and the
  result of a calculation in any other region is the same for every grid-intensity table.
\<close>

theorem region_isolation:
  "calc_with (gef(''electricity'' := v)) cgm data ''africa'' = calc_with gef cgm data ''africa'' \<and>
   (region \<noteq> ''africa'' \<longrightarrow> calc_with gef cgm' data region = calc_with gef cgm data region)"
proof (intro conjI impI)
  have h: "housing (gef(''electricity'' := v)) cgm data ''africa'' bd = housing gef cgm data ''africa'' bd" for bd
    by (simp add: housing_def entry_electricity Let_def cong: if_cong)
  have t: "transport (gef(''electricity'' := v)) data ''africa'' bd = transport gef data ''africa'' bd" for bd
    by (simp add: transport_def entry_electricity)
  have f: "flights (gef(''electricity'' := v)) data bd = flights gef data bd" for bd
    by (simp add: flights_def entry_electricity)
  show "calc_with (gef(''electricity'' := v)) cgm data ''africa'' = calc_with gef cgm data ''africa''"
    by (simp add: calc_with_def h t f diet_electricity)
next
  assume "region \<noteq> ''africa''"
  then show "calc_with gef cgm' data region = calc_with gef cgm data region"
    by (simp add: calc_with_def housing_def)
qed

theorem region_isolation_witness:
  "calc_with (GLOBAL_EMISSION_FACTORS(''electricity'' := Some (Fin 1000))) COUNTRY_GRID_MIX scenario3 ''africa'' =
     Inr (PFloat (Fin 1014),
           [(''Housing: Electricity'', Fin 360),
            (''Housing: Cooking (LPG)'', Fin 216),
            (''Transport: Car'', Fin 0),
            (''Transport: Motorcycle'', Fin 0),
            (''Transport: Bus/Minibus'', Fin 0),
            (''Transport: Flights'', Fin 0),
            (''Diet'', Fin 438)]) \<and>
   calc_with GLOBAL_EMISSION_FACTORS Map.empty scenario1 ''global'' =
     Inr (PFloat (Fin 438),
           [(''Housing: Electricity'', Fin 0),
            (''Housing: Natural Gas'', Fin 0),
            (''Housing: Heating Oil'', Fin 0),
            (''Housing: Propane'', Fin 0),
            (''Transport: Car'', Fin 0),
            (''Transport: Bus'', Fin 0),
            (''Transport: Train'', Fin 0),
            (''Transport: Flights'', Fin 0),
            (''Diet'', Fin 438)])"
  using region_isolation [where gef = GLOBAL_EMISSION_FACTORS and v = "Some (Fin 1000)"
      and cgm = COUNTRY_GRID_MIX and data = scenario3]
    region_isolation [where gef = GLOBAL_EMISSION_FACTORS and cgm = COUNTRY_GRID_MIX
      and region = "''global''" and cgm' = Map.empty and data = scenario1]
    scenario3_result scenario1_result
  by (simp add: calculate_carbon_footprint_def)

section \<open>The order of the recommendations\<close>

lemma set_insert_desc: "set (insert_desc x xs) = insert x (set xs)"
  by (induction xs) auto

lemma sorted_insert_desc:
  "sorted_wrt (\<lambda>a b. snd b \<le> snd a) xs \<Longrightarrow> sorted_wrt (\<lambda>a b. snd b \<le> snd a) (insert_desc x xs)"
  by (induction xs) (auto simp: set_insert_desc)

lemma sorted_sort_desc: "sorted_wrt (\<lambda>a b. snd b \<le> snd a) (sort_desc xs)"
  by (induction xs) (simp_all add: sorted_insert_desc)

lemma filter_insert_desc:
  "filter (\<lambda>r. snd r = s) (insert_desc x xs) = filter (\<lambda>r. snd r = s) (x # xs)"
  by (induction xs) auto

lemma filter_sort_desc:
  "filter (\<lambda>r. snd r = s) (sort_desc xs) = filter (\<lambda>r. snd r = s) xs"
  by (induction xs) (simp_all add: filter_insert_desc)

lemma length_insert_desc: "length (insert_desc x xs) = Suc (length xs)"
  by (induction xs) auto

lemma length_sort_desc: "length (sort_desc xs) = length xs"
  by (induction xs) (simp_all add: length_insert_desc)

lemma set_sort_desc: "set (sort_desc xs) = set xs"
  by (induction xs) (simp_all add: set_insert_desc)

text \<open>
  Claim C9. For every breakdown, region and input record, a recommendation list that is
  produced is the list the rules emitted, rearranged: it is sorted by savings, greatest
  first, it has the same entries, and for every savings value the recommendations with
  that value stand in the order in which the rules emitted them.
\<close>

theorem recommendations_sorted_stable:
  assumes "recommendations breakdown_dict region input_data = Inr rs"
  shows "\<exists>emitted. emit breakdown_dict region input_data = Inr emitted \<and>
     sorted_wrt (\<lambda>a b. snd b \<le> snd a) rs \<and>
     length rs = length emitted \<and> set rs = set emitted \<and>
     (\<forall>s. filter (\<lambda>r. snd r = s) rs = filter (\<lambda>r. snd r = s) emitted)"
proof -
  from assms obtain emitted where
    e: "emit breakdown_dict region input_data = Inr emitted" and r: "rs = sort_desc emitted"
    by (auto simp: recommendations_def bind_eq_Inr)
  show ?thesis
    using e unfolding r
    by (simp add: sorted_sort_desc filter_sort_desc length_sort_desc set_sort_desc)
qed

lemma recommendations_example:
  "recommendations [(''Housing: Electricity'', Fin 1800), (''Transport: Car'', Fin 2500)] ''Global'' scenario1 =
     Inr [(''Switch to energy-efficient appliances'', 500), (''Reduce car travel by 20%.'', 400)]"
  by (simp add: recommendations_def emit_def bd_get_def exceeds_def flt_def)

theorem recommendations_sorted_stable_witness:
  "recommendations [(''Housing: Electricity'', Fin 1800), (''Transport: Car'', Fin 2500)] ''Global'' scenario1 =
     Inr [(''Switch to energy-efficient appliances'', 500), (''Reduce car travel by 20%.'', 400)] \<and>
   emit [(''Housing: Electricity'', Fin 1800), (''Transport: Car'', Fin 2500)] ''Global'' scenario1 =
     Inr [(''Reduce car travel by 20%.'', 400), (''Switch to energy-efficient appliances'', 500)] \<and>
   sorted_wrt (\<lambda>a b. snd b \<le> snd a)
     [(''Switch to energy-efficient appliances'', 500 :: int), (''Reduce car travel by 20%.'', 400)] \<and>
   sort_desc [(''a'', 1), (''b'', 3), (''c'', 1), (''d'', 3), (''e'', 2)] =
     [(''b'', 3), (''d'', 3), (''e'', 2), (''a'', 1), (''c'', 1)]"
  using recommendations_sorted_stable [OF recommendations_example] recommendations_example
  by (simp add: emit_def bd_get_def exceeds_def flt_def)

end
